theory Spec2Isabelle
  imports Main
begin

section \<open>JavaScript values, completions and settlements\<close>

text \<open>
  The adapter is generic over the success value and the failure reason, and the
  derivatives test the failure reason for truthiness, so values are modelled as a
  datatype of JavaScript values on which \<open>truthy\<close> is JavaScript's ToBoolean.
  Numbers are the integers plus NaN (the only numbers that are falsy are 0 and NaN).
\<close>

datatype jsval =
    JUndefined
  | JNull
  | JBool bool
  | JNum int
  | JNaN
  | JStr string
  | JArr "jsval list"
  | JObj "(string \<times> jsval) list"

fun truthy :: "jsval \<Rightarrow> bool" where
  "truthy JUndefined = False"
| "truthy JNull = False"
| "truthy (JBool b) = b"
| "truthy (JNum n) = (n \<noteq> 0)"
| "truthy JNaN = False"
| "truthy (JStr s) = (s \<noteq> [])"
| "truthy (JArr xs) = True"
| "truthy (JObj fs) = True"

text \<open>
  A call of a user-supplied function either returns or throws, and may change the world
  (the sinks it writes to, the variables it captured). The world is a type parameter
  \<open>'w\<close> threaded through every call in the order the code makes them.
\<close>

datatype 'a completion = Returns 'a | Throws jsval

text \<open>How a promise settles: the awaited operation, and the promise an async function returns.\<close>

datatype settlement = Fulfilled jsval | Rejected jsval

section \<open>core.ts\<close>

definition FALSE_STYLE :: string where "FALSE_STYLE = ''false-style''"
definition TRUE_STYLE :: string where "TRUE_STYLE = ''true-style''"
definition GO_STYLE :: string where "GO_STYLE = ''goStyle''"
definition ERROR_STYLE :: string where "ERROR_STYLE = ''errorStyle''"
definition ONLY_ERROR :: string where "ONLY_ERROR = ''only-error''"
definition BOOLEAN :: string where "BOOLEAN = ''boolean''"

definition RETURN_STYLES :: "string list" where
  "RETURN_STYLES = [FALSE_STYLE, TRUE_STYLE, GO_STYLE, ERROR_STYLE, ONLY_ERROR, BOOLEAN]"

record 'w ConditionalHandler =
  ifTrue :: "jsval \<Rightarrow> 'w \<Rightarrow> bool completion \<times> 'w"
  doIt :: "jsval \<Rightarrow> 'w \<Rightarrow> unit completion \<times> 'w"

text \<open>Every field of the config is optional; \<open>returnStyle\<close> is a string at run time.\<close>

record 'w AsyncHandlerConfig =
  returnStyle :: "string option"
  conditionalHandlerChain :: "'w ConditionalHandler list option"
  defaultHandler :: "(jsval \<Rightarrow> 'w \<Rightarrow> jsval completion \<times> 'w) option"

text \<open>The default of \<open>defaultHandler\<close>: \<^verbatim>\<open>(e) => { throw e; }\<close>.\<close>

definition rethrow :: "jsval \<Rightarrow> 'w \<Rightarrow> jsval completion \<times> 'w" where
  "rethrow e w = (Throws e, w)"

text \<open>
  The \<^verbatim>\<open>for ... of\<close> loop of the catch block. It returns \<open>executedConditional\<close>.
  \<open>ifTrue\<close> is called outside any \<^verbatim>\<open>try\<close>, so its throw leaves the loop; \<open>doIt\<close> is
  called inside \<^verbatim>\<open>try { } catch (hErr) { }\<close>, so only its effect on the world remains.
\<close>

fun walkChain :: "'w ConditionalHandler list \<Rightarrow> jsval \<Rightarrow> 'w \<Rightarrow> bool completion \<times> 'w" where
  "walkChain [] err w = (Returns False, w)"
| "walkChain (h # hs) err w =
     (case ifTrue h err w of
        (Throws x, w1) \<Rightarrow> (Throws x, w1)
      | (Returns True, w1) \<Rightarrow> (Returns True, snd (doIt h err w1))
      | (Returns False, w1) \<Rightarrow> walkChain hs err w1)"

text \<open>
  The destructuring with defaults at the head of \<open>createAsyncHandler\<close>:
  \<^verbatim>\<open>const { returnStyle = GO_STYLE, conditionalHandlerChain = [], defaultHandler = rethrow } = config\<close>.
\<close>

definition styleOf :: "'w AsyncHandlerConfig \<Rightarrow> string" where
  "styleOf config = (case returnStyle config of None \<Rightarrow> GO_STYLE | Some s \<Rightarrow> s)"

definition chainOf :: "'w AsyncHandlerConfig \<Rightarrow> 'w ConditionalHandler list" where
  "chainOf config = (case conditionalHandlerChain config of None \<Rightarrow> [] | Some hs \<Rightarrow> hs)"

definition defaultOf :: "'w AsyncHandlerConfig \<Rightarrow> jsval \<Rightarrow> 'w \<Rightarrow> jsval completion \<times> 'w" where
  "defaultOf config = (case defaultHandler config of None \<Rightarrow> rethrow | Some d \<Rightarrow> d)"

text \<open>
  \<open>createAsyncHandler config\<close> is the async function \<open>handler\<close>; applied to the settlement
  of the awaited promise and the world, it gives the settlement of the promise it returns
  and the world afterwards. The two \<^verbatim>\<open>switch\<close> statements are the two chains of
  \<open>if\<close>, in the order of their \<^verbatim>\<open>case\<close> labels.
\<close>

definition createAsyncHandler ::
  "'w AsyncHandlerConfig \<Rightarrow> settlement \<Rightarrow> 'w \<Rightarrow> settlement \<times> 'w" where
  "createAsyncHandler config promise w =
     (let style = styleOf config; chain = chainOf config; dflt = defaultOf config
      in case promise of
           Fulfilled data \<Rightarrow>
             (if style = GO_STYLE then (Fulfilled (JArr [JNull, data]), w)
              else if style = ONLY_ERROR then (Fulfilled (JNum 0), w)
              else if style = BOOLEAN then (Fulfilled (JBool True), w)
              else (Fulfilled data, w))
         | Rejected err \<Rightarrow>
             (case walkChain chain err w of
                (Throws x, w1) \<Rightarrow> (Rejected x, w1)
              | (Returns executedConditional, w1) \<Rightarrow>
                  (if style = GO_STYLE then (Fulfilled (JArr [err, JNull]), w1)
                   else if style = ONLY_ERROR then (Fulfilled (JNum 1), w1)
                   else if style = BOOLEAN then (Fulfilled (JBool False), w1)
                   else if style = FALSE_STYLE \<or> style = TRUE_STYLE then
                     (Fulfilled (JBool (if style = FALSE_STYLE then False else True)),
                      if executedConditional then w1 else snd (dflt err w1))
                   else if style = ERROR_STYLE then (Fulfilled err, w1)
                   else if executedConditional then (Rejected err, w1)
                   else (case dflt err w1 of
                           (Returns v, w2) \<Rightarrow> (Fulfilled v, w2)
                         | (Throws x, w2) \<Rightarrow> (Rejected x, w2)))))"

section \<open>derivatives/index.ts\<close>

definition internalHandler :: "settlement \<Rightarrow> 'w \<Rightarrow> settlement \<times> 'w" where
  "internalHandler =
     createAsyncHandler
       \<lparr>returnStyle = Some GO_STYLE, conditionalHandlerChain = None, defaultHandler = None\<rparr>"

text \<open>
  \<^verbatim>\<open>type LogEntry = string | { fn: (...args: any[]) => void; params?: any[] }\<close> and
  \<^verbatim>\<open>type LogConfig = string | { error?: LogEntry; success?: LogEntry }\<close>.
\<close>

datatype 'w LogEntry =
    LogString string
  | LogObject (fn: "jsval list \<Rightarrow> 'w \<Rightarrow> unit completion \<times> 'w") (params: "jsval list option")

record 'w LogConfigObject =
  error :: "'w LogEntry option"
  success :: "'w LogEntry option"

datatype 'w LogConfig = LogConfigString string | LogConfigObj "'w LogConfigObject"

text \<open>
  The global \<^verbatim>\<open>console\<close>: its two methods used here, each called with an argument list.
  The tests replace both, so they are taken as parameters.
\<close>

record 'w Console =
  console_error :: "jsval list \<Rightarrow> 'w \<Rightarrow> unit completion \<times> 'w"
  console_log :: "jsval list \<Rightarrow> 'w \<Rightarrow> unit completion \<times> 'w"

datatype LogMethod = MethodError | MethodLog

datatype LogType = LogError | LogSuccess

fun consoleMethod :: "'w Console \<Rightarrow> LogMethod \<Rightarrow> jsval list \<Rightarrow> 'w \<Rightarrow> unit completion \<times> 'w" where
  "consoleMethod console MethodError = console_error console"
| "consoleMethod console MethodLog = console_log console"

text \<open>
  \<open>executeAction\<close>: a missing entry and the empty string are falsy; an object entry
  calls \<open>fn\<close> with exactly \<open>params\<close> (or no argument); a string entry goes to the
  console with \<^verbatim>\<open>payload || ''\<close>. Nothing is caught.
\<close>

fun executeAction ::
  "'w Console \<Rightarrow> 'w LogEntry option \<Rightarrow> LogMethod \<Rightarrow> jsval \<Rightarrow> 'w \<Rightarrow> unit completion \<times> 'w" where
  "executeAction console None method payload w = (Returns (), w)"
| "executeAction console (Some (LogObject f ps)) method payload w =
     f (case ps of None \<Rightarrow> [] | Some xs \<Rightarrow> xs) w"
| "executeAction console (Some (LogString s)) method payload w =
     (if s = [] then (Returns (), w)
      else consoleMethod console method [JStr s, if truthy payload then payload else JStr []] w)"

text \<open>Truthiness of an optional entry, as in \<^verbatim>\<open>config.error\<close> used as a condition.\<close>

fun entryTruthy :: "'w LogEntry option \<Rightarrow> bool" where
  "entryTruthy None = False"
| "entryTruthy (Some (LogString s)) = (s \<noteq> [])"
| "entryTruthy (Some (LogObject f ps)) = True"

fun handleLog ::
  "'w Console \<Rightarrow> 'w LogConfig option \<Rightarrow> LogType \<Rightarrow> jsval \<Rightarrow> 'w \<Rightarrow> unit completion \<times> 'w" where
  "handleLog console None type payload w = (Returns (), w)"
| "handleLog console (Some (LogConfigString s)) type payload w =
     (if s = [] then (Returns (), w)
      else if type = LogError then executeAction console (Some (LogString s)) MethodError payload w
      else (Returns (), w))"
| "handleLog console (Some (LogConfigObj c)) type payload w =
     (if type = LogError \<and> entryTruthy (error c) then
        executeAction console (error c) MethodError payload w
      else if type = LogSuccess \<and> entryTruthy (success c) then
        executeAction console (success c) MethodLog JUndefined w
      else (Returns (), w))"

text \<open>
  Array destructuring \<^verbatim>\<open>const [err, data] = ...\<close>: a position past the end reads
  \<^verbatim>\<open>undefined\<close>. The internal handler always fulfils with an array, so the other
  values (on which destructuring would raise a TypeError or iterate a string) are not
  reached; they are modelled as \<open>None\<close>.
\<close>

fun element :: "jsval list \<Rightarrow> nat \<Rightarrow> jsval" where
  "element [] n = JUndefined"
| "element (x # xs) 0 = x"
| "element (x # xs) (Suc n) = element xs n"

fun destructure :: "jsval \<Rightarrow> (jsval \<times> jsval) option" where
  "destructure (JArr xs) = Some (element xs 0, element xs 1)"
| "destructure v = None"

definition notIterable :: jsval where
  "notIterable = JObj [(''name'', JStr ''TypeError'')]"

text \<open>
  The three derivatives: await the internal handler, test \<^verbatim>\<open>if (err)\<close> (truthiness),
  log, return. A throw of \<open>handleLog\<close> is not caught, so it rejects the returned promise.
\<close>

definition valueOf ::
  "'w Console \<Rightarrow> settlement \<Rightarrow> 'w LogConfig option \<Rightarrow> 'w \<Rightarrow> settlement \<times> 'w" where
  "valueOf console promise config w =
     (case internalHandler promise w of
        (Rejected x, w1) \<Rightarrow> (Rejected x, w1)
      | (Fulfilled r, w1) \<Rightarrow>
          (case destructure r of
             None \<Rightarrow> (Rejected notIterable, w1)
           | Some (err, data) \<Rightarrow>
               if truthy err then
                 (case handleLog console config LogError err w1 of
                    (Throws x, w2) \<Rightarrow> (Rejected x, w2)
                  | (Returns u, w2) \<Rightarrow> (Fulfilled (JBool False), w2))
               else
                 (case handleLog console config LogSuccess JUndefined w1 of
                    (Throws x, w2) \<Rightarrow> (Rejected x, w2)
                  | (Returns u, w2) \<Rightarrow> (Fulfilled data, w2))))"

definition isSuccess ::
  "'w Console \<Rightarrow> settlement \<Rightarrow> 'w LogConfig option \<Rightarrow> 'w \<Rightarrow> settlement \<times> 'w" where
  "isSuccess console promise config w =
     (case internalHandler promise w of
        (Rejected x, w1) \<Rightarrow> (Rejected x, w1)
      | (Fulfilled r, w1) \<Rightarrow>
          (case destructure r of
             None \<Rightarrow> (Rejected notIterable, w1)
           | Some (err, data) \<Rightarrow>
               if truthy err then
                 (case handleLog console config LogError err w1 of
                    (Throws x, w2) \<Rightarrow> (Rejected x, w2)
                  | (Returns u, w2) \<Rightarrow> (Fulfilled (JBool False), w2))
               else
                 (case handleLog console config LogSuccess JUndefined w1 of
                    (Throws x, w2) \<Rightarrow> (Rejected x, w2)
                  | (Returns u, w2) \<Rightarrow> (Fulfilled (JBool True), w2))))"

definition toResult ::
  "'w Console \<Rightarrow> settlement \<Rightarrow> 'w LogConfig option \<Rightarrow> 'w \<Rightarrow> settlement \<times> 'w" where
  "toResult console promise config w =
     (case internalHandler promise w of
        (Rejected x, w1) \<Rightarrow> (Rejected x, w1)
      | (Fulfilled r, w1) \<Rightarrow>
          (case destructure r of
             None \<Rightarrow> (Rejected notIterable, w1)
           | Some (err, data) \<Rightarrow>
               if truthy err then
                 (case handleLog console config LogError err w1 of
                    (Throws x, w2) \<Rightarrow> (Rejected x, w2)
                  | (Returns u, w2) \<Rightarrow>
                      (Fulfilled (JObj [(''success'', JBool False), (''data'', JNull), (''error'', err)]), w2))
               else
                 (case handleLog console config LogSuccess JUndefined w1 of
                    (Throws x, w2) \<Rightarrow> (Rejected x, w2)
                  | (Returns u, w2) \<Rightarrow>
                      (Fulfilled (JObj [(''success'', JBool True), (''data'', data), (''error'', JNull)]), w2))))"

section \<open>The output the specification gives each style on failure\<close>

text \<open>
  Written from the specification's table of outputs on failure (step 3b of the adapter's
  algorithm), for the six styles of \<open>RETURN_STYLES\<close>; the code is compared with it.
\<close>

definition spec_failureOutput :: "string \<Rightarrow> jsval \<Rightarrow> jsval" where
  "spec_failureOutput style e =
     (if style = GO_STYLE then JArr [e, JNull]
      else if style = ONLY_ERROR then JNum 1
      else if style = BOOLEAN then JBool False
      else if style = FALSE_STYLE then JBool False
      else if style = TRUE_STYLE then JBool True
      else e)"

section \<open>Notions used to state the claims\<close>

text \<open>
  \<open>noneMatched hs e w w'\<close>: the predicates of \<open>hs\<close>, called in order with \<open>e\<close> from the
  world \<open>w\<close>, all return false (none matches, none throws), and leave the world \<open>w'\<close>.
  It is defined on the predicates alone, not through the loop of the adapter.
\<close>

fun noneMatched :: "'w ConditionalHandler list \<Rightarrow> jsval \<Rightarrow> 'w \<Rightarrow> 'w \<Rightarrow> bool" where
  "noneMatched [] e w w' = (w' = w)"
| "noneMatched (h # hs) e w w' =
     (case ifTrue h e w of
        (Returns False, w1) \<Rightarrow> noneMatched hs e w1 w'
      | (Returns True, w1) \<Rightarrow> False
      | (Throws x, w1) \<Rightarrow> False)"

text \<open>
  \<open>settleAfter logged out\<close>: how an async function settles that makes one call, whose
  completion and world are \<open>logged\<close>, outside any \<^verbatim>\<open>try\<close>, and then returns \<open>out\<close>:
  it rejects with what the call threw, or fulfils with \<open>out\<close>.
\<close>

definition settleAfter :: "unit completion \<times> 'w \<Rightarrow> jsval \<Rightarrow> settlement \<times> 'w" where
  "settleAfter logged out =
     (case logged of
        (Throws x, w1) \<Rightarrow> (Rejected x, w1)
      | (Returns u, w1) \<Rightarrow> (Fulfilled out, w1))"

section \<open>Test doubles\<close>

text \<open>
  The worlds of the concrete runs are call logs, as the spies of the test suite keep
  them: the name of the function called and its arguments, in order of the calls.
\<close>

type_synonym calls = "(string \<times> jsval list) list"

definition spy :: "string \<Rightarrow> 'a completion \<Rightarrow> jsval list \<Rightarrow> calls \<Rightarrow> 'a completion \<times> calls" where
  "spy name result args w = (result, w @ [(name, args)])"

definition spyConsole :: "calls Console" where
  "spyConsole =
     \<lparr>console_error = spy ''console.error'' (Returns ()),
      console_log = spy ''console.log'' (Returns ())\<rparr>"

text \<open>The predicate \<^verbatim>\<open>e => e?.code === n\<close> of the documentation's examples.\<close>

fun codeIs :: "int \<Rightarrow> jsval \<Rightarrow> bool" where
  "codeIs n (JObj fs) = (map_of fs ''code'' = Some (JNum n))"
| "codeIs n v = False"

text \<open>A handler that matches a code, and records the calls of its predicate and action.\<close>

definition onCode :: "string \<Rightarrow> int \<Rightarrow> unit completion \<Rightarrow> calls ConditionalHandler" where
  "onCode name n result =
     \<lparr>ifTrue = (\<lambda>e. spy (name @ ''.ifTrue'') (Returns (codeIs n e)) [e]),
      doIt = (\<lambda>e. spy (name @ ''.doIt'') result [e])\<rparr>"

text \<open>A config whose default handler is a spy completing with the given result.\<close>

definition spyConfig ::
  "string option \<Rightarrow> calls ConditionalHandler list \<Rightarrow> jsval completion \<Rightarrow> calls AsyncHandlerConfig" where
  "spyConfig style chain result =
     \<lparr>returnStyle = style, conditionalHandlerChain = Some chain,
      defaultHandler = Some (\<lambda>e. spy ''defaultHandler'' result [e])\<rparr>"

text \<open>The chain \<open>[H1, H2, H3]\<close>: \<open>H2\<close> and \<open>H3\<close> both match a 404, \<open>H1\<close> does not.\<close>

definition threeHandlers :: "calls ConditionalHandler list" where
  "threeHandlers =
     [onCode ''H1'' 401 (Returns ()), onCode ''H2'' 404 (Returns ()), onCode ''H3'' 404 (Returns ())]"

text \<open>The failure reasons of the examples: error objects with a code.\<close>

definition notFound :: jsval where
  "notFound = JObj [(''message'', JStr ''Post not found''), (''code'', JNum 404)]"

definition serverError :: jsval where
  "serverError = JObj [(''message'', JStr ''Server Explosion''), (''code'', JNum 500)]"

text \<open>A config that only selects a style, as the tests build them.\<close>

definition styleOnly :: "string \<Rightarrow> calls AsyncHandlerConfig" where
  "styleOnly style =
     \<lparr>returnStyle = Some style, conditionalHandlerChain = None, defaultHandler = None\<rparr>"

text \<open>A logging action that records its call and throws.\<close>

definition throwingFn :: "jsval \<Rightarrow> jsval list \<Rightarrow> calls \<Rightarrow> unit completion \<times> calls" where
  "throwingFn x = spy ''fn'' (Throws x)"

text \<open>A log config with a message for each outcome.\<close>

definition bothMessages :: "calls LogConfig" where
  "bothMessages =
     LogConfigObj \<lparr>error = Some (LogString ''Missed it!''), success = Some (LogString ''Got it!'')\<rparr>"

text \<open>A handler whose predicate records its call and throws.\<close>

definition brokenPredicate :: "string \<Rightarrow> jsval \<Rightarrow> calls ConditionalHandler" where
  "brokenPredicate name x =
     \<lparr>ifTrue = (\<lambda>e. spy (name @ ''.ifTrue'') (Throws x) [e]),
      doIt = (\<lambda>e. spy (name @ ''.doIt'') (Returns ()) [e])\<rparr>"

text \<open>A console whose two methods record their call and throw.\<close>

definition brokenConsole :: "jsval \<Rightarrow> calls Console" where
  "brokenConsole x =
     \<lparr>console_error = spy ''console.error'' (Throws x),
      console_log = spy ''console.log'' (Throws x)\<rparr>"

text \<open>A logging action with two arguments of its own, which records its call.\<close>

definition savingAction :: "calls LogEntry" where
  "savingAction = LogObject (spy ''fn'' (Returns ())) (Some [JStr ''saving'', JNum 1])"

section \<open>Lemmas about the adapter and the derivatives\<close>

lemmas style_defs =
  FALSE_STYLE_def TRUE_STYLE_def GO_STYLE_def ERROR_STYLE_def ONLY_ERROR_def BOOLEAN_def

lemma createAsyncHandler_Fulfilled:
  "createAsyncHandler cfg (Fulfilled v) w =
     (Fulfilled (if styleOf cfg = GO_STYLE then JArr [JNull, v]
                 else if styleOf cfg = ONLY_ERROR then JNum 0
                 else if styleOf cfg = BOOLEAN then JBool True
                 else v), w)"
  by (simp add: createAsyncHandler_def Let_def)

lemma createAsyncHandler_predicate_throws:
  "walkChain (chainOf cfg) e w = (Throws x, w1) \<Longrightarrow>
   createAsyncHandler cfg (Rejected e) w = (Rejected x, w1)"
  by (simp add: createAsyncHandler_def Let_def)

lemma createAsyncHandler_recognised:
  "walkChain (chainOf cfg) e w = (Returns m, w1) \<Longrightarrow> styleOf cfg \<in> set RETURN_STYLES \<Longrightarrow>
   createAsyncHandler cfg (Rejected e) w =
     (Fulfilled (spec_failureOutput (styleOf cfg) e),
      if (styleOf cfg = FALSE_STYLE \<or> styleOf cfg = TRUE_STYLE) \<and> \<not> m
      then snd (defaultOf cfg e w1) else w1)"
  by (auto simp add: createAsyncHandler_def Let_def RETURN_STYLES_def spec_failureOutput_def style_defs)

lemma createAsyncHandler_unrecognised:
  "walkChain (chainOf cfg) e w = (Returns m, w1) \<Longrightarrow> styleOf cfg \<notin> set RETURN_STYLES \<Longrightarrow>
   createAsyncHandler cfg (Rejected e) w =
     (if m then (Rejected e, w1)
      else (case defaultOf cfg e w1 of
              (Returns v, w2) \<Rightarrow> (Fulfilled v, w2)
            | (Throws x, w2) \<Rightarrow> (Rejected x, w2)))"
  by (simp add: createAsyncHandler_def Let_def RETURN_STYLES_def)

lemma walkChain_append_unmatched:
  "walkChain pre e w = (Returns False, w1) \<Longrightarrow> walkChain (pre @ rest) e w = walkChain rest e w1"
proof (induction pre arbitrary: w)
  case Nil
  then show ?case by simp
next
  case (Cons h hs)
  then show ?case
    by (auto split: prod.splits completion.splits bool.splits if_splits)
qed

lemma walkChain_first_match:
  "walkChain pre e w = (Returns False, w1) \<Longrightarrow> ifTrue h e w1 = (Returns True, w2) \<Longrightarrow>
   walkChain (pre @ h # post) e w = (Returns True, snd (doIt h e w2))"
  by (simp add: walkChain_append_unmatched)

lemma walkChain_first_throw:
  "walkChain pre e w = (Returns False, w1) \<Longrightarrow> ifTrue h e w1 = (Throws x, w2) \<Longrightarrow>
   walkChain (pre @ h # post) e w = (Throws x, w2)"
  by (simp add: walkChain_append_unmatched)

lemma internalHandler_Fulfilled:
  "internalHandler (Fulfilled v) w = (Fulfilled (JArr [JNull, v]), w)"
  by (simp add: internalHandler_def createAsyncHandler_Fulfilled styleOf_def)

lemma internalHandler_Rejected:
  "internalHandler (Rejected e) w = (Fulfilled (JArr [e, JNull]), w)"
  by (simp add: internalHandler_def createAsyncHandler_def styleOf_def chainOf_def Let_def)

lemmas fixture_defs = spyConfig_def threeHandlers_def onCode_def spy_def notFound_def serverError_def
  styleOf_def chainOf_def defaultOf_def

lemma valueOf_Fulfilled:
  "valueOf console (Fulfilled v) lc w =
     (case handleLog console lc LogSuccess JUndefined w of
        (Throws x, w2) \<Rightarrow> (Rejected x, w2)
      | (Returns u, w2) \<Rightarrow> (Fulfilled v, w2))"
  by (simp add: valueOf_def internalHandler_Fulfilled)

lemma valueOf_Rejected:
  "valueOf console (Rejected e) lc w =
     (if truthy e then
        (case handleLog console lc LogError e w of
           (Throws x, w2) \<Rightarrow> (Rejected x, w2)
         | (Returns u, w2) \<Rightarrow> (Fulfilled (JBool False), w2))
      else
        (case handleLog console lc LogSuccess JUndefined w of
           (Throws x, w2) \<Rightarrow> (Rejected x, w2)
         | (Returns u, w2) \<Rightarrow> (Fulfilled JNull, w2)))"
  by (simp add: valueOf_def internalHandler_Rejected)

lemma isSuccess_Fulfilled:
  "isSuccess console (Fulfilled v) lc w =
     (case handleLog console lc LogSuccess JUndefined w of
        (Throws x, w2) \<Rightarrow> (Rejected x, w2)
      | (Returns u, w2) \<Rightarrow> (Fulfilled (JBool True), w2))"
  by (simp add: isSuccess_def internalHandler_Fulfilled)

lemma isSuccess_Rejected:
  "isSuccess console (Rejected e) lc w =
     (if truthy e then
        (case handleLog console lc LogError e w of
           (Throws x, w2) \<Rightarrow> (Rejected x, w2)
         | (Returns u, w2) \<Rightarrow> (Fulfilled (JBool False), w2))
      else
        (case handleLog console lc LogSuccess JUndefined w of
           (Throws x, w2) \<Rightarrow> (Rejected x, w2)
         | (Returns u, w2) \<Rightarrow> (Fulfilled (JBool True), w2)))"
  by (simp add: isSuccess_def internalHandler_Rejected)

lemma toResult_Fulfilled:
  "toResult console (Fulfilled v) lc w =
     (case handleLog console lc LogSuccess JUndefined w of
        (Throws x, w2) \<Rightarrow> (Rejected x, w2)
      | (Returns u, w2) \<Rightarrow>
          (Fulfilled (JObj [(''success'', JBool True), (''data'', v), (''error'', JNull)]), w2))"
  by (simp add: toResult_def internalHandler_Fulfilled)

lemma toResult_Rejected:
  "toResult console (Rejected e) lc w =
     (if truthy e then
        (case handleLog console lc LogError e w of
           (Throws x, w2) \<Rightarrow> (Rejected x, w2)
         | (Returns u, w2) \<Rightarrow>
             (Fulfilled (JObj [(''success'', JBool False), (''data'', JNull), (''error'', e)]), w2))
      else
        (case handleLog console lc LogSuccess JUndefined w of
           (Throws x, w2) \<Rightarrow> (Rejected x, w2)
         | (Returns u, w2) \<Rightarrow>
             (Fulfilled (JObj [(''success'', JBool True), (''data'', JNull), (''error'', JNull)]), w2)))"
  by (simp add: toResult_def internalHandler_Rejected)

lemma handleLog_error_ignores_success:
  "handleLog console (Some (LogConfigObj \<lparr>error = en, success = s\<rparr>)) LogError e w
     = handleLog console (Some (LogConfigObj \<lparr>error = en, success = None\<rparr>)) LogError e w"
  by simp

lemma handleLog_error_object:
  "handleLog console (Some (LogConfigObj \<lparr>error = Some (LogObject f ps), success = s\<rparr>)) LogError e w
     = f (case ps of None \<Rightarrow> [] | Some xs \<Rightarrow> xs) w"
  by simp

lemmas log_fixture_defs = spyConsole_def spy_def throwingFn_def bothMessages_def serverError_def

lemma walkChain_noneMatched:
  "noneMatched hs e w w1 \<Longrightarrow> walkChain hs e w = (Returns False, w1)"
proof (induction hs arbitrary: w)
  case Nil
  then show ?case by simp
next
  case (Cons h hs)
  then show ?case
    by (auto split: prod.splits completion.splits bool.splits if_splits)
qed

lemma walkChain_matched_after:
  "noneMatched pre e w w1 \<Longrightarrow> ifTrue h e w1 = (Returns True, w2) \<Longrightarrow>
   walkChain (pre @ h # post) e w = (Returns True, snd (doIt h e w2))"
  by (simp add: walkChain_noneMatched walkChain_first_match)

lemma walkChain_throws_after:
  "noneMatched pre e w w1 \<Longrightarrow> ifTrue h e w1 = (Throws x, w2) \<Longrightarrow>
   walkChain (pre @ h # post) e w = (Throws x, w2)"
  by (simp add: walkChain_noneMatched walkChain_first_throw)

lemma valueOf_Rejected_truthy:
  "truthy e \<Longrightarrow>
   valueOf console (Rejected e) lc w = settleAfter (handleLog console lc LogError e w) (JBool False)"
  by (simp add: valueOf_Rejected settleAfter_def)

lemma isSuccess_Rejected_truthy:
  "truthy e \<Longrightarrow>
   isSuccess console (Rejected e) lc w = settleAfter (handleLog console lc LogError e w) (JBool False)"
  by (simp add: isSuccess_Rejected settleAfter_def)

lemma toResult_Rejected_truthy:
  "truthy e \<Longrightarrow>
   toResult console (Rejected e) lc w =
     settleAfter (handleLog console lc LogError e w)
       (JObj [(''success'', JBool False), (''data'', JNull), (''error'', e)])"
  by (simp add: toResult_Rejected settleAfter_def)

lemma valueOf_Fulfilled_settle:
  "valueOf console (Fulfilled v) lc w = settleAfter (handleLog console lc LogSuccess JUndefined w) v"
  by (simp add: valueOf_Fulfilled settleAfter_def)

lemma isSuccess_Fulfilled_settle:
  "isSuccess console (Fulfilled v) lc w
     = settleAfter (handleLog console lc LogSuccess JUndefined w) (JBool True)"
  by (simp add: isSuccess_Fulfilled settleAfter_def)

lemma toResult_Fulfilled_settle:
  "toResult console (Fulfilled v) lc w =
     settleAfter (handleLog console lc LogSuccess JUndefined w)
       (JObj [(''success'', JBool True), (''data'', v), (''error'', JNull)])"
  by (simp add: toResult_Fulfilled settleAfter_def)

lemmas derivative_settle =
  valueOf_Rejected_truthy isSuccess_Rejected_truthy toResult_Rejected_truthy
  valueOf_Fulfilled_settle isSuccess_Fulfilled_settle toResult_Fulfilled_settle

section \<open>Claim C1: valueOf and isSuccess on failure\<close>

text \<open>
  Claim C1 says that every failure, also one with a falsy reason, and any log config
  give \<open>false\<close> with the error log run. Rejected with \<open>0\<close>, \<open>isSuccess\<close> fulfils
  with \<open>true\<close> and \<open>valueOf\<close> with \<open>null\<close>, and the success message is logged; and
  with a logging action that throws, \<open>valueOf\<close> rejects.
\<close>

theorem falsy_reason_or_throwing_log_counterexample:
  "isSuccess spyConsole (Rejected (JNum 0)) (Some bothMessages) []
     = (Fulfilled (JBool True), [(''console.log'', [JStr ''Got it!'', JStr []])])
   \<and> valueOf spyConsole (Rejected (JNum 0)) (Some bothMessages) []
     = (Fulfilled JNull, [(''console.log'', [JStr ''Got it!'', JStr []])])
   \<and> valueOf spyConsole (Rejected serverError)
        (Some (LogConfigObj \<lparr>error = Some (LogObject (throwingFn (JStr ''log failed'')) None),
                              success = None\<rparr>)) []
     = (Rejected (JStr ''log failed''), [(''fn'', [])])"
  by (simp add: isSuccess_Rejected valueOf_Rejected log_fixture_defs)

text \<open>
  Claim C1, as the code has it, for an operation that fails with a truthy reason \<open>e\<close>:
  when the error log returns normally, \<open>valueOf\<close> and \<open>isSuccess\<close> both fulfil with
  \<open>false\<close>, in the world the error log left; when it throws \<open>x\<close>, both reject with
  \<open>x\<close>; the success entry of the config plays no part. The error log is the \<open>fn\<close> of
  an object entry called with its \<open>params\<close>, or \<open>console.error\<close> called with a
  non-empty message and \<open>e\<close>; with no error entry (or an empty message) nothing is
  called and both fulfil with \<open>false\<close>.
\<close>

theorem failure_with_truthy_reason_gives_false:
  "(truthy e \<and> handleLog console lc LogError e w = (Returns u, w1) \<longrightarrow>
      valueOf console (Rejected e) lc w = (Fulfilled (JBool False), w1)
      \<and> isSuccess console (Rejected e) lc w = (Fulfilled (JBool False), w1))
   \<and> (truthy e \<and> handleLog console lc LogError e w = (Throws x, w1) \<longrightarrow>
      valueOf console (Rejected e) lc w = (Rejected x, w1)
      \<and> isSuccess console (Rejected e) lc w = (Rejected x, w1))
   \<and> (truthy e \<longrightarrow>
      valueOf console (Rejected e) (Some (LogConfigObj \<lparr>error = en, success = s\<rparr>)) w
        = valueOf console (Rejected e) (Some (LogConfigObj \<lparr>error = en, success = None\<rparr>)) w
      \<and> isSuccess console (Rejected e) (Some (LogConfigObj \<lparr>error = en, success = s\<rparr>)) w
        = isSuccess console (Rejected e) (Some (LogConfigObj \<lparr>error = en, success = None\<rparr>)) w)
   \<and> (truthy e \<longrightarrow>
      valueOf console (Rejected e)
          (Some (LogConfigObj \<lparr>error = Some (LogObject f ps), success = s\<rparr>)) w
        = settleAfter (f (case ps of None \<Rightarrow> [] | Some xs \<Rightarrow> xs) w) (JBool False)
      \<and> isSuccess console (Rejected e)
          (Some (LogConfigObj \<lparr>error = Some (LogObject f ps), success = s\<rparr>)) w
        = settleAfter (f (case ps of None \<Rightarrow> [] | Some xs \<Rightarrow> xs) w) (JBool False))
   \<and> (truthy e \<and> msg \<noteq> [] \<longrightarrow>
      valueOf console (Rejected e)
          (Some (LogConfigObj \<lparr>error = Some (LogString msg), success = s\<rparr>)) w
        = settleAfter (console_error console [JStr msg, e] w) (JBool False)
      \<and> isSuccess console (Rejected e)
          (Some (LogConfigObj \<lparr>error = Some (LogString msg), success = s\<rparr>)) w
        = settleAfter (console_error console [JStr msg, e] w) (JBool False)
      \<and> valueOf console (Rejected e) (Some (LogConfigString msg)) w
        = settleAfter (console_error console [JStr msg, e] w) (JBool False)
      \<and> isSuccess console (Rejected e) (Some (LogConfigString msg)) w
        = settleAfter (console_error console [JStr msg, e] w) (JBool False))
   \<and> (truthy e \<and> (lc = None \<or> lc = Some (LogConfigString [])
          \<or> lc = Some (LogConfigObj \<lparr>error = None, success = s\<rparr>)
          \<or> lc = Some (LogConfigObj \<lparr>error = Some (LogString []), success = s\<rparr>)) \<longrightarrow>
      valueOf console (Rejected e) lc w = (Fulfilled (JBool False), w)
      \<and> isSuccess console (Rejected e) lc w = (Fulfilled (JBool False), w))"
proof -
  have returned: "valueOf console (Rejected e) lc w = (Fulfilled (JBool False), w1)
      \<and> isSuccess console (Rejected e) lc w = (Fulfilled (JBool False), w1)"
    if "truthy e" "handleLog console lc LogError e w = (Returns u, w1)"
    using that by (simp add: valueOf_Rejected isSuccess_Rejected)
  have thrown: "valueOf console (Rejected e) lc w = (Rejected x, w1)
      \<and> isSuccess console (Rejected e) lc w = (Rejected x, w1)"
    if "truthy e" "handleLog console lc LogError e w = (Throws x, w1)"
    using that by (simp add: valueOf_Rejected isSuccess_Rejected)
  have no_success_log:
    "valueOf console (Rejected e) (Some (LogConfigObj \<lparr>error = en, success = s\<rparr>)) w
        = valueOf console (Rejected e) (Some (LogConfigObj \<lparr>error = en, success = None\<rparr>)) w
      \<and> isSuccess console (Rejected e) (Some (LogConfigObj \<lparr>error = en, success = s\<rparr>)) w
        = isSuccess console (Rejected e) (Some (LogConfigObj \<lparr>error = en, success = None\<rparr>)) w"
    if "truthy e"
    using that handleLog_error_ignores_success [of console en s e w]
    by (simp only: valueOf_Rejected isSuccess_Rejected if_True)
  have action:
    "valueOf console (Rejected e)
          (Some (LogConfigObj \<lparr>error = Some (LogObject f ps), success = s\<rparr>)) w
        = settleAfter (f (case ps of None \<Rightarrow> [] | Some xs \<Rightarrow> xs) w) (JBool False)
      \<and> isSuccess console (Rejected e)
          (Some (LogConfigObj \<lparr>error = Some (LogObject f ps), success = s\<rparr>)) w
        = settleAfter (f (case ps of None \<Rightarrow> [] | Some xs \<Rightarrow> xs) w) (JBool False)"
    if "truthy e"
    using that by (simp add: derivative_settle)
  have message:
    "valueOf console (Rejected e)
          (Some (LogConfigObj \<lparr>error = Some (LogString msg), success = s\<rparr>)) w
        = settleAfter (console_error console [JStr msg, e] w) (JBool False)
      \<and> isSuccess console (Rejected e)
          (Some (LogConfigObj \<lparr>error = Some (LogString msg), success = s\<rparr>)) w
        = settleAfter (console_error console [JStr msg, e] w) (JBool False)
      \<and> valueOf console (Rejected e) (Some (LogConfigString msg)) w
        = settleAfter (console_error console [JStr msg, e] w) (JBool False)
      \<and> isSuccess console (Rejected e) (Some (LogConfigString msg)) w
        = settleAfter (console_error console [JStr msg, e] w) (JBool False)"
    if "truthy e" "msg \<noteq> []"
    using that by (simp add: derivative_settle)
  have silent: "valueOf console (Rejected e) lc w = (Fulfilled (JBool False), w)
      \<and> isSuccess console (Rejected e) lc w = (Fulfilled (JBool False), w)"
    if "truthy e" "lc = None \<or> lc = Some (LogConfigString [])
          \<or> lc = Some (LogConfigObj \<lparr>error = None, success = s\<rparr>)
          \<or> lc = Some (LogConfigObj \<lparr>error = Some (LogString []), success = s\<rparr>)"
    using that by (auto simp add: valueOf_Rejected isSuccess_Rejected)
  from returned thrown no_success_log action message silent show ?thesis by blast
qed

text \<open>Concrete runs of claim C1, through the theorem.\<close>

theorem failure_with_truthy_reason_gives_false_witness:
  "valueOf spyConsole (Rejected serverError) (Some (LogConfigString ''Custom Error Msg'')) []
     = (Fulfilled (JBool False), [(''console.error'', [JStr ''Custom Error Msg'', serverError])])
   \<and> isSuccess spyConsole (Rejected serverError) (Some (LogConfigString ''Custom Error Msg'')) []
     = (Fulfilled (JBool False), [(''console.error'', [JStr ''Custom Error Msg'', serverError])])
   \<and> valueOf spyConsole (Rejected serverError) (Some bothMessages) []
     = valueOf spyConsole (Rejected serverError)
         (Some (LogConfigObj \<lparr>error = Some (LogString ''Missed it!''), success = None\<rparr>)) []
   \<and> isSuccess spyConsole (Rejected serverError)
        (Some (LogConfigObj \<lparr>error = Some (LogObject (throwingFn (JStr ''log failed'')) None),
                              success = None\<rparr>)) []
     = (Rejected (JStr ''log failed''), [(''fn'', [])])
   \<and> isSuccess (brokenConsole (JStr ''sink failed'')) (Rejected serverError)
        (Some (LogConfigObj \<lparr>error = Some (LogString ''Missed it!''), success = None\<rparr>)) []
     = (Rejected (JStr ''sink failed''), [(''console.error'', [JStr ''Missed it!'', serverError])])
   \<and> valueOf spyConsole (Rejected serverError) None [] = (Fulfilled (JBool False), [])"
proof -
  let ?lcF = "Some (LogConfigObj \<lparr>error = Some (LogObject (throwingFn (JStr ''log failed'')) None),
                           success = None\<rparr>)"
  let ?lcM = "Some (LogConfigObj \<lparr>error = Some (LogString ''Missed it!''), success = None\<rparr>)"
  have tr: "truthy serverError"
    by (simp add: serverError_def)
  have lg: "handleLog spyConsole (Some (LogConfigString ''Custom Error Msg'')) LogError serverError []
      = (Returns (), [(''console.error'', [JStr ''Custom Error Msg'', serverError])])"
    using tr by (simp add: spyConsole_def spy_def)
  have fn: "settleAfter (throwingFn (JStr ''log failed'') (case None of None \<Rightarrow> [] | Some xs \<Rightarrow> xs) [])
        (JBool False)
      = (Rejected (JStr ''log failed''), [(''fn'', [])])"
    by (simp add: settleAfter_def throwingFn_def spy_def)
  have sink: "settleAfter
        (console_error (brokenConsole (JStr ''sink failed'')) [JStr ''Missed it!'', serverError] [])
        (JBool False)
      = (Rejected (JStr ''sink failed''), [(''console.error'', [JStr ''Missed it!'', serverError])])"
    by (simp add: settleAfter_def brokenConsole_def spy_def)
  note t = failure_with_truthy_reason_gives_false
  from t [where e = serverError and console = spyConsole
      and lc = "Some (LogConfigString ''Custom Error Msg'')" and w = "[]" and u = "()"
      and ?w1.0 = "[(''console.error'', [JStr ''Custom Error Msg'', serverError])]"] tr lg
  have a: "valueOf spyConsole (Rejected serverError) (Some (LogConfigString ''Custom Error Msg'')) []
     = (Fulfilled (JBool False), [(''console.error'', [JStr ''Custom Error Msg'', serverError])])
   \<and> isSuccess spyConsole (Rejected serverError) (Some (LogConfigString ''Custom Error Msg'')) []
     = (Fulfilled (JBool False), [(''console.error'', [JStr ''Custom Error Msg'', serverError])])"
    by simp
  from t [where e = serverError and console = spyConsole and w = "[]"
      and en = "Some (LogString ''Missed it!'')" and s = "Some (LogString ''Got it!'')"] tr
  have b: "valueOf spyConsole (Rejected serverError) (Some bothMessages) []
     = valueOf spyConsole (Rejected serverError) ?lcM []"
    unfolding bothMessages_def by simp
  from t [where e = serverError and console = spyConsole and w = "[]"
      and f = "throwingFn (JStr ''log failed'')" and ps = None and s = None] tr fn
  have c: "isSuccess spyConsole (Rejected serverError) ?lcF []
     = (Rejected (JStr ''log failed''), [(''fn'', [])])"
    by simp
  from t [where e = serverError and console = "brokenConsole (JStr ''sink failed'')" and w = "[]"
      and msg = "''Missed it!''" and s = None] tr sink
  have d: "isSuccess (brokenConsole (JStr ''sink failed'')) (Rejected serverError) ?lcM []
     = (Rejected (JStr ''sink failed''), [(''console.error'', [JStr ''Missed it!'', serverError])])"
    by simp
  from t [where e = serverError and console = spyConsole and w = "[]" and lc = None] tr
  have e: "valueOf spyConsole (Rejected serverError) None [] = (Fulfilled (JBool False), [])"
    by simp
  from a b c d e show ?thesis by simp
qed

section \<open>Claim C2: handlers that throw\<close>

text \<open>
  Claim C2 says that no throw of a predicate, an action or the default handler reaches
  the caller. The predicate is called outside any \<^verbatim>\<open>try\<close>: when it throws, the
  adapter rejects with what it threw, here under \<open>false-style\<close>.
\<close>

theorem predicate_throw_counterexample:
  "createAsyncHandler
     (spyConfig (Some FALSE_STYLE) [brokenPredicate ''H'' (JStr ''predicate failed'')] (Returns JUndefined))
     (Rejected notFound) []
   = (Rejected (JStr ''predicate failed''), [(''H.ifTrue'', [notFound])])"
  by (simp add: createAsyncHandler_def Let_def fixture_defs brokenPredicate_def)

text \<open>
  Claim C2, as the code has it, for a failing operation: under each of the six styles of
  \<open>RETURN_STYLES\<close>, when the action of the first matching handler throws, the adapter
  still fulfils with the output of the style, in the world the action left; under
  \<open>false-style\<close> and \<open>true-style\<close>, when no handler matched and the default handler
  throws, the adapter still fulfils with the fixed boolean; and under every style, when
  the predicates before \<open>h\<close> returned false and the predicate of \<open>h\<close> throws \<open>x\<close>,
  the adapter rejects with \<open>x\<close>.
\<close>

theorem handler_throws:
  "(styleOf cfg \<in> set RETURN_STYLES \<and> chainOf cfg = pre @ h # post
      \<and> walkChain pre e w = (Returns False, w1) \<and> ifTrue h e w1 = (Returns True, w2)
      \<and> doIt h e w2 = (Throws x, w3) \<longrightarrow>
    createAsyncHandler cfg (Rejected e) w = (Fulfilled (spec_failureOutput (styleOf cfg) e), w3))
   \<and> ((styleOf cfg = FALSE_STYLE \<or> styleOf cfg = TRUE_STYLE)
      \<and> walkChain (chainOf cfg) e w = (Returns False, w1)
      \<and> defaultOf cfg e w1 = (Throws x, w2) \<longrightarrow>
    createAsyncHandler cfg (Rejected e) w = (Fulfilled (spec_failureOutput (styleOf cfg) e), w2))
   \<and> (chainOf cfg = pre @ h # post \<and> walkChain pre e w = (Returns False, w1)
      \<and> ifTrue h e w1 = (Throws x, w2) \<longrightarrow>
    createAsyncHandler cfg (Rejected e) w = (Rejected x, w2))"
proof -
  have action: "createAsyncHandler cfg (Rejected e) w
      = (Fulfilled (spec_failureOutput (styleOf cfg) e), w3)"
    if "styleOf cfg \<in> set RETURN_STYLES" "chainOf cfg = pre @ h # post"
       "walkChain pre e w = (Returns False, w1)" "ifTrue h e w1 = (Returns True, w2)"
       "doIt h e w2 = (Throws x, w3)" for pre h post w1 w2 w3
  proof -
    from that have "walkChain (chainOf cfg) e w = (Returns True, w3)"
      by (simp add: walkChain_first_match)
    with that(1) show ?thesis
      by (simp add: createAsyncHandler_recognised)
  qed
  have dflt: "createAsyncHandler cfg (Rejected e) w
      = (Fulfilled (spec_failureOutput (styleOf cfg) e), w2)"
    if "styleOf cfg = FALSE_STYLE \<or> styleOf cfg = TRUE_STYLE"
       "walkChain (chainOf cfg) e w = (Returns False, w1)"
       "defaultOf cfg e w1 = (Throws x, w2)" for w1 w2
  proof -
    from that(1) have "styleOf cfg \<in> set RETURN_STYLES"
      by (auto simp add: RETURN_STYLES_def)
    from createAsyncHandler_recognised [OF that(2) this] that(1,3) show ?thesis
      by auto
  qed
  have predicate: "createAsyncHandler cfg (Rejected e) w = (Rejected x, w2)"
    if "chainOf cfg = pre @ h # post" "walkChain pre e w = (Returns False, w1)"
       "ifTrue h e w1 = (Throws x, w2)" for pre h post w1 w2
    using that by (simp add: createAsyncHandler_predicate_throws walkChain_first_throw)
  from action dflt predicate show ?thesis by blast
qed

text \<open>Concrete runs of claim C2, through the theorem.\<close>

theorem handler_throws_witness:
  "createAsyncHandler
     (spyConfig (Some GO_STYLE)
        [onCode ''H1'' 401 (Returns ()), onCode ''H2'' 404 (Throws (JStr ''action failed''))]
        (Returns JUndefined))
     (Rejected notFound) []
   = (Fulfilled (JArr [notFound, JNull]),
      [(''H1.ifTrue'', [notFound]), (''H2.ifTrue'', [notFound]), (''H2.doIt'', [notFound])])
   \<and> createAsyncHandler (spyConfig (Some FALSE_STYLE) [] (Throws (JStr ''handler failed'')))
       (Rejected serverError) []
   = (Fulfilled (JBool False), [(''defaultHandler'', [serverError])])
   \<and> createAsyncHandler
     (spyConfig (Some BOOLEAN)
        [onCode ''H1'' 401 (Returns ()), brokenPredicate ''H2'' (JStr ''predicate failed'')]
        (Returns JUndefined))
     (Rejected notFound) []
   = (Rejected (JStr ''predicate failed''),
      [(''H1.ifTrue'', [notFound]), (''H2.ifTrue'', [notFound])])"
proof -
  let ?H1 = "onCode ''H1'' 401 (Returns ())"
  let ?H2 = "onCode ''H2'' 404 (Throws (JStr ''action failed''))"
  let ?B = "brokenPredicate ''H2'' (JStr ''predicate failed'')"
  let ?cfgA = "spyConfig (Some GO_STYLE) [?H1, ?H2] (Returns JUndefined)"
  let ?cfgD = "spyConfig (Some FALSE_STYLE) [] (Throws (JStr ''handler failed''))"
  let ?cfgP = "spyConfig (Some BOOLEAN) [?H1, ?B] (Returns JUndefined)"
  let ?w1 = "[(''H1.ifTrue'', [notFound])]"
  let ?w2 = "[(''H1.ifTrue'', [notFound]), (''H2.ifTrue'', [notFound])]"
  let ?w3 = "[(''H1.ifTrue'', [notFound]), (''H2.ifTrue'', [notFound]), (''H2.doIt'', [notFound])]"
  note t = handler_throws
  have stA: "styleOf ?cfgA \<in> set RETURN_STYLES" "styleOf ?cfgA = GO_STYLE"
    by (simp_all add: fixture_defs RETURN_STYLES_def)
  have chA: "chainOf ?cfgA = [?H1] @ ?H2 # []"
    by (simp add: spyConfig_def chainOf_def)
  have pre: "walkChain [?H1] notFound [] = (Returns False, ?w1)"
    by (simp add: fixture_defs)
  have p2: "ifTrue ?H2 notFound ?w1 = (Returns True, ?w2)"
    by (simp add: fixture_defs)
  have a2: "doIt ?H2 notFound ?w2 = (Throws (JStr ''action failed''), ?w3)"
    by (simp add: fixture_defs)
  have outA: "spec_failureOutput GO_STYLE notFound = JArr [notFound, JNull]"
    by (simp add: spec_failureOutput_def)
  from t [where cfg = ?cfgA and pre = "[?H1]" and h = ?H2 and post = "[]" and e = notFound
      and w = "[]" and ?w1.0 = ?w1 and ?w2.0 = ?w2 and ?w3.0 = ?w3 and x = "JStr ''action failed''"]
    stA chA pre p2 a2 outA
  have a: "createAsyncHandler ?cfgA (Rejected notFound) [] = (Fulfilled (JArr [notFound, JNull]), ?w3)"
    by simp
  have stD: "styleOf ?cfgD = FALSE_STYLE"
    by (simp add: fixture_defs)
  have walkD: "walkChain (chainOf ?cfgD) serverError [] = (Returns False, [])"
    by (simp add: fixture_defs)
  have dD: "defaultOf ?cfgD serverError [] = (Throws (JStr ''handler failed''), [(''defaultHandler'', [serverError])])"
    by (simp add: fixture_defs)
  have outD: "spec_failureOutput FALSE_STYLE serverError = JBool False"
    by (simp add: spec_failureOutput_def style_defs)
  from t [where cfg = ?cfgD and e = serverError and w = "[]" and ?w1.0 = "[]"
      and ?w2.0 = "[(''defaultHandler'', [serverError])]" and x = "JStr ''handler failed''"]
    stD walkD dD outD
  have d: "createAsyncHandler ?cfgD (Rejected serverError) []
      = (Fulfilled (JBool False), [(''defaultHandler'', [serverError])])"
    by simp
  have chP: "chainOf ?cfgP = [?H1] @ ?B # []"
    by (simp add: spyConfig_def chainOf_def)
  have pB: "ifTrue ?B notFound ?w1 = (Throws (JStr ''predicate failed''), ?w2)"
    by (simp add: fixture_defs brokenPredicate_def)
  from t [where cfg = ?cfgP and pre = "[?H1]" and h = ?B and post = "[]" and e = notFound
      and w = "[]" and ?w1.0 = ?w1 and ?w2.0 = ?w2 and x = "JStr ''predicate failed''"]
    chP pre pB
  have p: "createAsyncHandler ?cfgP (Rejected notFound) [] = (Rejected (JStr ''predicate failed''), ?w2)"
    by simp
  from a d p show ?thesis by blast
qed

section \<open>Claim C3: logging actions that throw\<close>

text \<open>
  Claim C3 says that a throw of a logging action does not leave the derivative. Nothing
  in the derivatives catches it: \<open>isSuccess\<close> rejects with what the error action threw,
  and \<open>toResult\<close> with what the console threw on the success message.
\<close>

theorem logging_throw_counterexample:
  "isSuccess spyConsole (Rejected serverError)
     (Some (LogConfigObj \<lparr>error = Some (LogObject (throwingFn (JStr ''log failed'')) (Some [JStr ''a''])),
                           success = None\<rparr>)) []
   = (Rejected (JStr ''log failed''), [(''fn'', [JStr ''a''])])
   \<and> toResult (brokenConsole (JStr ''sink failed'')) (Fulfilled (JNum 1))
     (Some (LogConfigObj \<lparr>error = None, success = Some (LogString ''Got it!'')\<rparr>)) []
   = (Rejected (JStr ''sink failed''), [(''console.log'', [JStr ''Got it!'', JStr []])])"
  by (simp add: isSuccess_Rejected toResult_Fulfilled log_fixture_defs brokenConsole_def)

text \<open>
  Claim C3, as the code has it: when \<open>handleLog\<close> throws \<open>x\<close> (on a failure with a
  truthy reason, or on a success), each of \<open>valueOf\<close>, \<open>isSuccess\<close> and \<open>toResult\<close>
  rejects with \<open>x\<close>; when it returns, each gives its normal output. For each kind of
  entry, on either side, the derivative settles after the logging action itself: the
  \<open>fn\<close> of an object entry called with its \<open>params\<close>, \<open>console.error\<close> called with
  a non-empty error message and the reason, \<open>console.log\<close> called with a non-empty
  success message and the empty string. It rejects with what the action throws, and
  gives its normal output when the action returns.
\<close>

theorem logging_throw_propagates:
  "(truthy e \<and> handleLog console lc LogError e w = (Throws x, w1) \<longrightarrow>
      valueOf console (Rejected e) lc w = (Rejected x, w1)
      \<and> isSuccess console (Rejected e) lc w = (Rejected x, w1)
      \<and> toResult console (Rejected e) lc w = (Rejected x, w1))
   \<and> (handleLog console lc LogSuccess JUndefined w = (Throws x, w1) \<longrightarrow>
      valueOf console (Fulfilled v) lc w = (Rejected x, w1)
      \<and> isSuccess console (Fulfilled v) lc w = (Rejected x, w1)
      \<and> toResult console (Fulfilled v) lc w = (Rejected x, w1))
   \<and> (truthy e \<and> handleLog console lc LogError e w = (Returns u, w1) \<longrightarrow>
      valueOf console (Rejected e) lc w = (Fulfilled (JBool False), w1)
      \<and> isSuccess console (Rejected e) lc w = (Fulfilled (JBool False), w1)
      \<and> toResult console (Rejected e) lc w
          = (Fulfilled (JObj [(''success'', JBool False), (''data'', JNull), (''error'', e)]), w1))
   \<and> (handleLog console lc LogSuccess JUndefined w = (Returns u, w1) \<longrightarrow>
      valueOf console (Fulfilled v) lc w = (Fulfilled v, w1)
      \<and> isSuccess console (Fulfilled v) lc w = (Fulfilled (JBool True), w1)
      \<and> toResult console (Fulfilled v) lc w
          = (Fulfilled (JObj [(''success'', JBool True), (''data'', v), (''error'', JNull)]), w1))
   \<and> (truthy e \<longrightarrow>
      valueOf console (Rejected e)
          (Some (LogConfigObj \<lparr>error = Some (LogObject f ps), success = s\<rparr>)) w
        = settleAfter (f (case ps of None \<Rightarrow> [] | Some xs \<Rightarrow> xs) w) (JBool False)
      \<and> isSuccess console (Rejected e)
          (Some (LogConfigObj \<lparr>error = Some (LogObject f ps), success = s\<rparr>)) w
        = settleAfter (f (case ps of None \<Rightarrow> [] | Some xs \<Rightarrow> xs) w) (JBool False)
      \<and> toResult console (Rejected e)
          (Some (LogConfigObj \<lparr>error = Some (LogObject f ps), success = s\<rparr>)) w
        = settleAfter (f (case ps of None \<Rightarrow> [] | Some xs \<Rightarrow> xs) w)
            (JObj [(''success'', JBool False), (''data'', JNull), (''error'', e)]))
   \<and> (truthy e \<and> msg \<noteq> [] \<longrightarrow>
      valueOf console (Rejected e)
          (Some (LogConfigObj \<lparr>error = Some (LogString msg), success = s\<rparr>)) w
        = settleAfter (console_error console [JStr msg, e] w) (JBool False)
      \<and> isSuccess console (Rejected e)
          (Some (LogConfigObj \<lparr>error = Some (LogString msg), success = s\<rparr>)) w
        = settleAfter (console_error console [JStr msg, e] w) (JBool False)
      \<and> toResult console (Rejected e)
          (Some (LogConfigObj \<lparr>error = Some (LogString msg), success = s\<rparr>)) w
        = settleAfter (console_error console [JStr msg, e] w)
            (JObj [(''success'', JBool False), (''data'', JNull), (''error'', e)])
      \<and> valueOf console (Rejected e) (Some (LogConfigString msg)) w
        = settleAfter (console_error console [JStr msg, e] w) (JBool False)
      \<and> isSuccess console (Rejected e) (Some (LogConfigString msg)) w
        = settleAfter (console_error console [JStr msg, e] w) (JBool False)
      \<and> toResult console (Rejected e) (Some (LogConfigString msg)) w
        = settleAfter (console_error console [JStr msg, e] w)
            (JObj [(''success'', JBool False), (''data'', JNull), (''error'', e)]))
   \<and> valueOf console (Fulfilled v)
          (Some (LogConfigObj \<lparr>error = en, success = Some (LogObject f ps)\<rparr>)) w
        = settleAfter (f (case ps of None \<Rightarrow> [] | Some xs \<Rightarrow> xs) w) v
   \<and> isSuccess console (Fulfilled v)
          (Some (LogConfigObj \<lparr>error = en, success = Some (LogObject f ps)\<rparr>)) w
        = settleAfter (f (case ps of None \<Rightarrow> [] | Some xs \<Rightarrow> xs) w) (JBool True)
   \<and> toResult console (Fulfilled v)
          (Some (LogConfigObj \<lparr>error = en, success = Some (LogObject f ps)\<rparr>)) w
        = settleAfter (f (case ps of None \<Rightarrow> [] | Some xs \<Rightarrow> xs) w)
            (JObj [(''success'', JBool True), (''data'', v), (''error'', JNull)])
   \<and> (msg \<noteq> [] \<longrightarrow>
      valueOf console (Fulfilled v)
          (Some (LogConfigObj \<lparr>error = en, success = Some (LogString msg)\<rparr>)) w
        = settleAfter (console_log console [JStr msg, JStr []] w) v
      \<and> isSuccess console (Fulfilled v)
          (Some (LogConfigObj \<lparr>error = en, success = Some (LogString msg)\<rparr>)) w
        = settleAfter (console_log console [JStr msg, JStr []] w) (JBool True)
      \<and> toResult console (Fulfilled v)
          (Some (LogConfigObj \<lparr>error = en, success = Some (LogString msg)\<rparr>)) w
        = settleAfter (console_log console [JStr msg, JStr []] w)
            (JObj [(''success'', JBool True), (''data'', v), (''error'', JNull)]))"
proof -
  have error_throws:
    "valueOf console (Rejected e) lc w = (Rejected x, w1)
      \<and> isSuccess console (Rejected e) lc w = (Rejected x, w1)
      \<and> toResult console (Rejected e) lc w = (Rejected x, w1)"
    if "truthy e" "handleLog console lc LogError e w = (Throws x, w1)"
    using that by (simp add: valueOf_Rejected isSuccess_Rejected toResult_Rejected)
  have success_throws:
    "valueOf console (Fulfilled v) lc w = (Rejected x, w1)
      \<and> isSuccess console (Fulfilled v) lc w = (Rejected x, w1)
      \<and> toResult console (Fulfilled v) lc w = (Rejected x, w1)"
    if "handleLog console lc LogSuccess JUndefined w = (Throws x, w1)"
    using that by (simp add: valueOf_Fulfilled isSuccess_Fulfilled toResult_Fulfilled)
  have error_returns:
    "valueOf console (Rejected e) lc w = (Fulfilled (JBool False), w1)
      \<and> isSuccess console (Rejected e) lc w = (Fulfilled (JBool False), w1)
      \<and> toResult console (Rejected e) lc w
          = (Fulfilled (JObj [(''success'', JBool False), (''data'', JNull), (''error'', e)]), w1)"
    if "truthy e" "handleLog console lc LogError e w = (Returns u, w1)"
    using that by (simp add: valueOf_Rejected isSuccess_Rejected toResult_Rejected)
  have success_returns:
    "valueOf console (Fulfilled v) lc w = (Fulfilled v, w1)
      \<and> isSuccess console (Fulfilled v) lc w = (Fulfilled (JBool True), w1)
      \<and> toResult console (Fulfilled v) lc w
          = (Fulfilled (JObj [(''success'', JBool True), (''data'', v), (''error'', JNull)]), w1)"
    if "handleLog console lc LogSuccess JUndefined w = (Returns u, w1)"
    using that by (simp add: valueOf_Fulfilled isSuccess_Fulfilled toResult_Fulfilled)
  have error_fn:
    "valueOf console (Rejected e)
          (Some (LogConfigObj \<lparr>error = Some (LogObject f ps), success = s\<rparr>)) w
        = settleAfter (f (case ps of None \<Rightarrow> [] | Some xs \<Rightarrow> xs) w) (JBool False)
      \<and> isSuccess console (Rejected e)
          (Some (LogConfigObj \<lparr>error = Some (LogObject f ps), success = s\<rparr>)) w
        = settleAfter (f (case ps of None \<Rightarrow> [] | Some xs \<Rightarrow> xs) w) (JBool False)
      \<and> toResult console (Rejected e)
          (Some (LogConfigObj \<lparr>error = Some (LogObject f ps), success = s\<rparr>)) w
        = settleAfter (f (case ps of None \<Rightarrow> [] | Some xs \<Rightarrow> xs) w)
            (JObj [(''success'', JBool False), (''data'', JNull), (''error'', e)])"
    if "truthy e"
    using that by (simp add: derivative_settle)
  have error_message:
    "valueOf console (Rejected e)
          (Some (LogConfigObj \<lparr>error = Some (LogString msg), success = s\<rparr>)) w
        = settleAfter (console_error console [JStr msg, e] w) (JBool False)
      \<and> isSuccess console (Rejected e)
          (Some (LogConfigObj \<lparr>error = Some (LogString msg), success = s\<rparr>)) w
        = settleAfter (console_error console [JStr msg, e] w) (JBool False)
      \<and> toResult console (Rejected e)
          (Some (LogConfigObj \<lparr>error = Some (LogString msg), success = s\<rparr>)) w
        = settleAfter (console_error console [JStr msg, e] w)
            (JObj [(''success'', JBool False), (''data'', JNull), (''error'', e)])
      \<and> valueOf console (Rejected e) (Some (LogConfigString msg)) w
        = settleAfter (console_error console [JStr msg, e] w) (JBool False)
      \<and> isSuccess console (Rejected e) (Some (LogConfigString msg)) w
        = settleAfter (console_error console [JStr msg, e] w) (JBool False)
      \<and> toResult console (Rejected e) (Some (LogConfigString msg)) w
        = settleAfter (console_error console [JStr msg, e] w)
            (JObj [(''success'', JBool False), (''data'', JNull), (''error'', e)])"
    if "truthy e" "msg \<noteq> []"
    using that by (simp add: derivative_settle)
  have success_fn:
    "valueOf console (Fulfilled v)
          (Some (LogConfigObj \<lparr>error = en, success = Some (LogObject f ps)\<rparr>)) w
        = settleAfter (f (case ps of None \<Rightarrow> [] | Some xs \<Rightarrow> xs) w) v"
    "isSuccess console (Fulfilled v)
          (Some (LogConfigObj \<lparr>error = en, success = Some (LogObject f ps)\<rparr>)) w
        = settleAfter (f (case ps of None \<Rightarrow> [] | Some xs \<Rightarrow> xs) w) (JBool True)"
    "toResult console (Fulfilled v)
          (Some (LogConfigObj \<lparr>error = en, success = Some (LogObject f ps)\<rparr>)) w
        = settleAfter (f (case ps of None \<Rightarrow> [] | Some xs \<Rightarrow> xs) w)
            (JObj [(''success'', JBool True), (''data'', v), (''error'', JNull)])"
    by (simp_all add: derivative_settle)
  have success_message:
    "valueOf console (Fulfilled v)
          (Some (LogConfigObj \<lparr>error = en, success = Some (LogString msg)\<rparr>)) w
        = settleAfter (console_log console [JStr msg, JStr []] w) v
      \<and> isSuccess console (Fulfilled v)
          (Some (LogConfigObj \<lparr>error = en, success = Some (LogString msg)\<rparr>)) w
        = settleAfter (console_log console [JStr msg, JStr []] w) (JBool True)
      \<and> toResult console (Fulfilled v)
          (Some (LogConfigObj \<lparr>error = en, success = Some (LogString msg)\<rparr>)) w
        = settleAfter (console_log console [JStr msg, JStr []] w)
            (JObj [(''success'', JBool True), (''data'', v), (''error'', JNull)])"
    if "msg \<noteq> []"
    using that by (simp add: derivative_settle)
  show ?thesis
    apply (intro conjI impI)
    using error_throws success_throws error_returns success_returns error_fn error_message
      success_fn success_message
    apply simp_all
    done
qed

text \<open>Concrete runs of claim C3, through the theorem.\<close>

theorem logging_throw_propagates_witness:
  "toResult spyConsole (Rejected serverError)
     (Some (LogConfigObj \<lparr>error = Some (LogObject (throwingFn (JStr ''log failed'')) None),
                           success = None\<rparr>)) []
   = (Rejected (JStr ''log failed''), [(''fn'', [])])
   \<and> valueOf (brokenConsole (JStr ''sink failed'')) (Rejected serverError)
       (Some (LogConfigString ''Custom Error Msg'')) []
   = (Rejected (JStr ''sink failed''), [(''console.error'', [JStr ''Custom Error Msg'', serverError])])
   \<and> isSuccess (brokenConsole (JStr ''sink failed'')) (Fulfilled (JStr ''payload''))
       (Some (LogConfigObj \<lparr>error = None, success = Some (LogString ''Got it!'')\<rparr>)) []
   = (Rejected (JStr ''sink failed''), [(''console.log'', [JStr ''Got it!'', JStr []])])
   \<and> valueOf spyConsole (Fulfilled (JStr ''payload''))
       (Some (LogConfigObj \<lparr>error = None,
                             success = Some (LogObject (throwingFn (JStr ''log failed''))
                                               (Some [JStr ''/dashboard'']))\<rparr>)) []
   = (Rejected (JStr ''log failed''), [(''fn'', [JStr ''/dashboard''])])
   \<and> toResult spyConsole (Fulfilled (JBool False)) (Some bothMessages) []
   = (Fulfilled (JObj [(''success'', JBool True), (''data'', JBool False), (''error'', JNull)]),
      [(''console.log'', [JStr ''Got it!'', JStr []])])
   \<and> toResult spyConsole (Rejected serverError) (Some bothMessages) []
   = (Fulfilled (JObj [(''success'', JBool False), (''data'', JNull), (''error'', serverError)]),
      [(''console.error'', [JStr ''Missed it!'', serverError])])"
proof -
  let ?B = "brokenConsole (JStr ''sink failed'')"
  let ?F = "throwingFn (JStr ''log failed'')"
  let ?lcF = "Some (LogConfigObj \<lparr>error = Some (LogObject ?F None), success = None\<rparr>)"
  let ?lcS = "Some (LogConfigObj \<lparr>error = None, success = Some (LogString ''Got it!'')\<rparr>)"
  let ?lcG = "Some (LogConfigObj \<lparr>error = None,
                             success = Some (LogObject ?F (Some [JStr ''/dashboard'']))\<rparr>)"
  note t = logging_throw_propagates
  have tr: "truthy serverError"
    by (simp add: serverError_def)
  have fnE: "settleAfter (?F (case None of None \<Rightarrow> [] | Some xs \<Rightarrow> xs) []) out
      = (Rejected (JStr ''log failed''), [(''fn'', [])])" for out
    by (simp add: settleAfter_def throwingFn_def spy_def)
  have fnS: "settleAfter (?F (case Some [JStr ''/dashboard''] of None \<Rightarrow> [] | Some xs \<Rightarrow> xs) []) out
      = (Rejected (JStr ''log failed''), [(''fn'', [JStr ''/dashboard''])])" for out
    by (simp add: settleAfter_def throwingFn_def spy_def)
  have sinkE: "settleAfter (console_error ?B [JStr ''Custom Error Msg'', serverError] []) out
      = (Rejected (JStr ''sink failed''), [(''console.error'', [JStr ''Custom Error Msg'', serverError])])"
    for out
    by (simp add: settleAfter_def brokenConsole_def spy_def)
  have sinkS: "settleAfter (console_log ?B [JStr ''Got it!'', JStr []] []) out
      = (Rejected (JStr ''sink failed''), [(''console.log'', [JStr ''Got it!'', JStr []])])" for out
    by (simp add: settleAfter_def brokenConsole_def spy_def)
  from t [where console = spyConsole and f = ?F and ps = None and s = None and e = serverError
      and w = "[]"] tr fnE
  have a: "toResult spyConsole (Rejected serverError) ?lcF [] = (Rejected (JStr ''log failed''), [(''fn'', [])])"
    by simp
  from t [where console = ?B and msg = "''Custom Error Msg''" and e = serverError and w = "[]"]
    tr sinkE
  have b: "valueOf ?B (Rejected serverError) (Some (LogConfigString ''Custom Error Msg'')) []
      = (Rejected (JStr ''sink failed''), [(''console.error'', [JStr ''Custom Error Msg'', serverError])])"
    by simp
  from t [where console = ?B and msg = "''Got it!''" and en = None and v = "JStr ''payload''"
      and w = "[]"] sinkS
  have c: "isSuccess ?B (Fulfilled (JStr ''payload'')) ?lcS []
      = (Rejected (JStr ''sink failed''), [(''console.log'', [JStr ''Got it!'', JStr []])])"
    by simp
  from t [where console = spyConsole and f = ?F and ps = "Some [JStr ''/dashboard'']" and en = None
      and v = "JStr ''payload''" and w = "[]"] fnS
  have d: "valueOf spyConsole (Fulfilled (JStr ''payload'')) ?lcG []
      = (Rejected (JStr ''log failed''), [(''fn'', [JStr ''/dashboard''])])"
    by simp
  have hOk: "handleLog spyConsole (Some bothMessages) LogSuccess JUndefined []
      = (Returns (), [(''console.log'', [JStr ''Got it!'', JStr []])])"
    by (simp add: log_fixture_defs)
  from t [where console = spyConsole and lc = "Some bothMessages" and w = "[]" and u = "()"
      and v = "JBool False" and ?w1.0 = "[(''console.log'', [JStr ''Got it!'', JStr []])]"] hOk
  have e: "toResult spyConsole (Fulfilled (JBool False)) (Some bothMessages) []
      = (Fulfilled (JObj [(''success'', JBool True), (''data'', JBool False), (''error'', JNull)]),
         [(''console.log'', [JStr ''Got it!'', JStr []])])"
    by simp
  have hErr: "handleLog spyConsole (Some bothMessages) LogError serverError []
      = (Returns (), [(''console.error'', [JStr ''Missed it!'', serverError])])"
    using tr by (simp add: spyConsole_def spy_def bothMessages_def)
  from t [where console = spyConsole and lc = "Some bothMessages" and w = "[]" and u = "()"
      and e = serverError and ?w1.0 = "[(''console.error'', [JStr ''Missed it!'', serverError])]"] tr hErr
  have f: "toResult spyConsole (Rejected serverError) (Some bothMessages) []
      = (Fulfilled (JObj [(''success'', JBool False), (''data'', JNull), (''error'', serverError)]),
         [(''console.error'', [JStr ''Missed it!'', serverError])])"
    by simp
  from a b c d e f show ?thesis by simp
qed

section \<open>Claim C4: handlers run only on failure, first match wins\<close>

text \<open>
  Claim C4: on success no handler runs, for any style (the world is unchanged, and the
  result does not depend on the chain or the default handler). On failure with the chain
  \<open>[H1, H2, H3]\<close>, where the predicate of \<open>H1\<close> returns false and that of \<open>H2\<close> true,
  the world afterwards is the one the action of \<open>H2\<close> leaves after the two predicate
  calls: no action of \<open>H1\<close>, nothing of \<open>H3\<close>, no default handler. The same holds for
  the first match at any position of a chain.
\<close>

theorem handlers_run_only_on_failure_first_match_wins:
  "snd (createAsyncHandler cfg (Fulfilled v) w) = w
   \<and> createAsyncHandler (cfg\<lparr>conditionalHandlerChain := c, defaultHandler := d\<rparr>) (Fulfilled v) w
       = createAsyncHandler cfg (Fulfilled v) w
   \<and> (chainOf cfg = [H1, H2, H3] \<and> ifTrue H1 e w = (Returns False, w1)
        \<and> ifTrue H2 e w1 = (Returns True, w2)
      \<longrightarrow> snd (createAsyncHandler cfg (Rejected e) w) = snd (doIt H2 e w2))
   \<and> (chainOf cfg = pre @ h # post \<and> walkChain pre e w = (Returns False, w1)
        \<and> ifTrue h e w1 = (Returns True, w2)
      \<longrightarrow> snd (createAsyncHandler cfg (Rejected e) w) = snd (doIt h e w2))"
proof -
  have matched: "snd (createAsyncHandler cfg (Rejected e) w) = w'"
    if "walkChain (chainOf cfg) e w = (Returns True, w')" for w'
  proof (cases "styleOf cfg \<in> set RETURN_STYLES")
    case True
    with that show ?thesis by (simp add: createAsyncHandler_recognised)
  next
    case False
    with that show ?thesis by (simp add: createAsyncHandler_unrecognised)
  qed
  have success: "snd (createAsyncHandler cfg (Fulfilled v) w) = w"
    by (simp add: createAsyncHandler_Fulfilled)
  have independent:
    "createAsyncHandler (cfg\<lparr>conditionalHandlerChain := c, defaultHandler := d\<rparr>) (Fulfilled v) w
       = createAsyncHandler cfg (Fulfilled v) w"
    by (simp add: createAsyncHandler_Fulfilled styleOf_def)
  have general: "snd (createAsyncHandler cfg (Rejected e) w) = snd (doIt h e w2)"
    if "chainOf cfg = pre @ h # post" "walkChain pre e w = (Returns False, w1)"
       "ifTrue h e w1 = (Returns True, w2)" for pre h post
    using that by (simp add: matched walkChain_first_match)
  have three: "snd (createAsyncHandler cfg (Rejected e) w) = snd (doIt H2 e w2)"
    if "chainOf cfg = [H1, H2, H3]" "ifTrue H1 e w = (Returns False, w1)"
       "ifTrue H2 e w1 = (Returns True, w2)"
    using that by (simp add: matched)
  from success independent general three show ?thesis by blast
qed

text \<open>Concrete runs of claim C4, through the theorem.\<close>

theorem handlers_run_only_on_failure_first_match_wins_witness:
  "snd (createAsyncHandler (spyConfig (Some FALSE_STYLE) threeHandlers (Returns JUndefined))
          (Rejected notFound) [])
     = [(''H1.ifTrue'', [notFound]), (''H2.ifTrue'', [notFound]), (''H2.doIt'', [notFound])]
   \<and> snd (createAsyncHandler (spyConfig (Some ''unknown'') threeHandlers (Returns JUndefined))
          (Rejected notFound) [])
     = [(''H1.ifTrue'', [notFound]), (''H2.ifTrue'', [notFound]), (''H2.doIt'', [notFound])]
   \<and> snd (createAsyncHandler (spyConfig (Some FALSE_STYLE) threeHandlers (Returns JUndefined))
          (Fulfilled (JNum 123)) []) = []"
proof -
  let ?H1 = "onCode ''H1'' 401 (Returns ())"
  let ?H2 = "onCode ''H2'' 404 (Returns ())"
  let ?H3 = "onCode ''H3'' 404 (Returns ())"
  let ?w1 = "[(''H1.ifTrue'', [notFound])]"
  let ?w2 = "[(''H1.ifTrue'', [notFound]), (''H2.ifTrue'', [notFound])]"
  have p1: "ifTrue ?H1 notFound [] = (Returns False, ?w1)"
    by (simp add: fixture_defs)
  have p2: "ifTrue ?H2 notFound ?w1 = (Returns True, ?w2)"
    by (simp add: fixture_defs)
  have act: "snd (doIt ?H2 notFound ?w2) = ?w2 @ [(''H2.doIt'', [notFound])]"
    by (simp add: fixture_defs)
  have c: "chainOf (spyConfig s threeHandlers (Returns JUndefined)) = [?H1, ?H2, ?H3]" for s
    by (simp add: spyConfig_def chainOf_def threeHandlers_def)
  have a: "snd (createAsyncHandler (spyConfig s threeHandlers (Returns JUndefined))
              (Rejected notFound) []) = snd (doIt ?H2 notFound ?w2)" for s
    using handlers_run_only_on_failure_first_match_wins
      [of "spyConfig s threeHandlers (Returns JUndefined)" "JNum 123" "[]" _ _
          ?H1 ?H2 ?H3 notFound ?w1 ?w2] c p1 p2
    by blast
  have b: "snd (createAsyncHandler (spyConfig (Some FALSE_STYLE) threeHandlers (Returns JUndefined))
              (Fulfilled (JNum 123)) []) = []"
    using handlers_run_only_on_failure_first_match_wins
      [of "spyConfig (Some FALSE_STYLE) threeHandlers (Returns JUndefined)" "JNum 123" "[]"]
    by blast
  from a act b show ?thesis by simp
qed

section \<open>Claim C5: goStyle, only-error and boolean\<close>

text \<open>
  Claim C5 says that for \<open>goStyle\<close>, \<open>only-error\<close> and \<open>boolean\<close> the output is
  determined by the settlement alone. On failure the chain is walked first, and a
  predicate that throws makes the adapter reject: here a \<open>boolean\<close> adapter rejects
  instead of returning \<open>false\<close>, and a \<open>goStyle\<close> one does not return the pair.
\<close>

theorem boolean_style_predicate_throw_counterexample:
  "createAsyncHandler
     (spyConfig (Some BOOLEAN) [brokenPredicate ''H'' (JStr ''predicate failed'')] (Returns JUndefined))
     (Rejected serverError) []
   = (Rejected (JStr ''predicate failed''), [(''H.ifTrue'', [serverError])])
   \<and> createAsyncHandler
     (spyConfig (Some GO_STYLE) [brokenPredicate ''H'' (JStr ''predicate failed'')] (Returns JUndefined))
     (Rejected serverError) []
   \<noteq> (Fulfilled (JArr [serverError, JNull]), [(''H.ifTrue'', [serverError])])"
  by (simp add: createAsyncHandler_def Let_def fixture_defs brokenPredicate_def)

text \<open>
  Claim C5, as the code has it: on success \<open>goStyle\<close> gives \<open>[null, value]\<close>,
  \<open>only-error\<close> gives \<open>0\<close> and \<open>boolean\<close> gives \<open>true\<close>, for every value. On failure,
  when no predicate of the chain throws (none matches, or \<open>h\<close> is the first to match),
  they give \<open>[reason, null]\<close>, \<open>1\<close> and \<open>false\<close>, for every reason; when the
  predicates before \<open>h\<close> return false and the predicate of \<open>h\<close> throws \<open>x\<close>, the
  adapter rejects with \<open>x\<close>.
\<close>

theorem settlement_decides_go_only_error_boolean:
  "(styleOf cfg = GO_STYLE \<longrightarrow>
      createAsyncHandler cfg (Fulfilled v) w = (Fulfilled (JArr [JNull, v]), w))
   \<and> (styleOf cfg = ONLY_ERROR \<longrightarrow>
      createAsyncHandler cfg (Fulfilled v) w = (Fulfilled (JNum 0), w))
   \<and> (styleOf cfg = BOOLEAN \<longrightarrow>
      createAsyncHandler cfg (Fulfilled v) w = (Fulfilled (JBool True), w))
   \<and> (styleOf cfg = GO_STYLE \<and> noneMatched (chainOf cfg) e w w1 \<longrightarrow>
      createAsyncHandler cfg (Rejected e) w = (Fulfilled (JArr [e, JNull]), w1))
   \<and> (styleOf cfg = ONLY_ERROR \<and> noneMatched (chainOf cfg) e w w1 \<longrightarrow>
      createAsyncHandler cfg (Rejected e) w = (Fulfilled (JNum 1), w1))
   \<and> (styleOf cfg = BOOLEAN \<and> noneMatched (chainOf cfg) e w w1 \<longrightarrow>
      createAsyncHandler cfg (Rejected e) w = (Fulfilled (JBool False), w1))
   \<and> (styleOf cfg = GO_STYLE \<and> chainOf cfg = pre @ h # post \<and> noneMatched pre e w w1
        \<and> ifTrue h e w1 = (Returns True, w2) \<longrightarrow>
      createAsyncHandler cfg (Rejected e) w = (Fulfilled (JArr [e, JNull]), snd (doIt h e w2)))
   \<and> (styleOf cfg = ONLY_ERROR \<and> chainOf cfg = pre @ h # post \<and> noneMatched pre e w w1
        \<and> ifTrue h e w1 = (Returns True, w2) \<longrightarrow>
      createAsyncHandler cfg (Rejected e) w = (Fulfilled (JNum 1), snd (doIt h e w2)))
   \<and> (styleOf cfg = BOOLEAN \<and> chainOf cfg = pre @ h # post \<and> noneMatched pre e w w1
        \<and> ifTrue h e w1 = (Returns True, w2) \<longrightarrow>
      createAsyncHandler cfg (Rejected e) w = (Fulfilled (JBool False), snd (doIt h e w2)))
   \<and> (chainOf cfg = pre @ h # post \<and> noneMatched pre e w w1
        \<and> ifTrue h e w1 = (Throws x, w2) \<longrightarrow>
      createAsyncHandler cfg (Rejected e) w = (Rejected x, w2))"
proof -
  have ok: "styleOf cfg = GO_STYLE \<Longrightarrow>
      createAsyncHandler cfg (Fulfilled v) w = (Fulfilled (JArr [JNull, v]), w)"
    "styleOf cfg = ONLY_ERROR \<Longrightarrow>
      createAsyncHandler cfg (Fulfilled v) w = (Fulfilled (JNum 0), w)"
    "styleOf cfg = BOOLEAN \<Longrightarrow>
      createAsyncHandler cfg (Fulfilled v) w = (Fulfilled (JBool True), w)"
    by (simp_all add: createAsyncHandler_Fulfilled style_defs)
  have walked: "createAsyncHandler cfg (Rejected e) w =
      (Fulfilled (spec_failureOutput (styleOf cfg) e), w')"
    if "walkChain (chainOf cfg) e w = (Returns m, w')"
       "styleOf cfg = GO_STYLE \<or> styleOf cfg = ONLY_ERROR \<or> styleOf cfg = BOOLEAN" for m w'
    using that by (auto simp add: createAsyncHandler_recognised RETURN_STYLES_def style_defs)
  have out: "spec_failureOutput GO_STYLE e = JArr [e, JNull]"
    "spec_failureOutput ONLY_ERROR e = JNum 1" "spec_failureOutput BOOLEAN e = JBool False"
    by (simp_all add: spec_failureOutput_def style_defs)
  have unmatched: "createAsyncHandler cfg (Rejected e) w =
      (Fulfilled (spec_failureOutput (styleOf cfg) e), w1)"
    if "noneMatched (chainOf cfg) e w w1"
       "styleOf cfg = GO_STYLE \<or> styleOf cfg = ONLY_ERROR \<or> styleOf cfg = BOOLEAN"
    using that walked [of False w1] by (simp add: walkChain_noneMatched)
  have matched: "createAsyncHandler cfg (Rejected e) w =
      (Fulfilled (spec_failureOutput (styleOf cfg) e), snd (doIt h e w2))"
    if "chainOf cfg = pre @ h # post" "noneMatched pre e w w1" "ifTrue h e w1 = (Returns True, w2)"
       "styleOf cfg = GO_STYLE \<or> styleOf cfg = ONLY_ERROR \<or> styleOf cfg = BOOLEAN"
    using that walked [of True "snd (doIt h e w2)"] by (simp add: walkChain_matched_after)
  have thrown: "createAsyncHandler cfg (Rejected e) w = (Rejected x, w2)"
    if "chainOf cfg = pre @ h # post" "noneMatched pre e w w1" "ifTrue h e w1 = (Throws x, w2)"
    using that by (simp add: createAsyncHandler_predicate_throws walkChain_throws_after)
  from ok unmatched matched thrown out show ?thesis by metis
qed

text \<open>Concrete runs of claim C5, through the theorem.\<close>

theorem settlement_decides_go_only_error_boolean_witness:
  "createAsyncHandler (styleOnly GO_STYLE) (Fulfilled (JNum 0)) []
     = (Fulfilled (JArr [JNull, JNum 0]), [])
   \<and> createAsyncHandler (styleOnly GO_STYLE) (Rejected (JBool False)) []
     = (Fulfilled (JArr [JBool False, JNull]), [])
   \<and> createAsyncHandler (styleOnly ONLY_ERROR) (Fulfilled (JStr [])) [] = (Fulfilled (JNum 0), [])
   \<and> createAsyncHandler (styleOnly ONLY_ERROR) (Rejected (JNum 0)) [] = (Fulfilled (JNum 1), [])
   \<and> createAsyncHandler (styleOnly BOOLEAN) (Fulfilled (JBool False)) []
     = (Fulfilled (JBool True), [])
   \<and> createAsyncHandler (spyConfig (Some BOOLEAN) threeHandlers (Returns JUndefined))
        (Rejected (JStr [])) []
     = (Fulfilled (JBool False),
        [(''H1.ifTrue'', [JStr []]), (''H2.ifTrue'', [JStr []]), (''H3.ifTrue'', [JStr []])])
   \<and> createAsyncHandler (spyConfig (Some GO_STYLE) threeHandlers (Returns JUndefined))
        (Rejected notFound) []
     = (Fulfilled (JArr [notFound, JNull]),
        [(''H1.ifTrue'', [notFound]), (''H2.ifTrue'', [notFound]), (''H2.doIt'', [notFound])])
   \<and> createAsyncHandler
        (spyConfig (Some ONLY_ERROR)
           [onCode ''H1'' 401 (Returns ()), brokenPredicate ''H2'' (JStr ''predicate failed'')]
           (Returns JUndefined))
        (Rejected notFound) []
     = (Rejected (JStr ''predicate failed''),
        [(''H1.ifTrue'', [notFound]), (''H2.ifTrue'', [notFound])])"
proof -
  let ?H1 = "onCode ''H1'' 401 (Returns ())"
  let ?H2 = "onCode ''H2'' 404 (Returns ())"
  let ?H3 = "onCode ''H3'' 404 (Returns ())"
  let ?B = "brokenPredicate ''H2'' (JStr ''predicate failed'')"
  let ?cfgB = "spyConfig (Some BOOLEAN) threeHandlers (Returns JUndefined)"
  let ?cfgG = "spyConfig (Some GO_STYLE) threeHandlers (Returns JUndefined)"
  let ?cfgO = "spyConfig (Some ONLY_ERROR) [?H1, ?B] (Returns JUndefined)"
  let ?w1 = "[(''H1.ifTrue'', [notFound])]"
  let ?w2 = "[(''H1.ifTrue'', [notFound]), (''H2.ifTrue'', [notFound])]"
  have s: "styleOf (styleOnly y) = y" "chainOf (styleOnly y) = []" for y
    by (simp_all add: styleOnly_def styleOf_def chainOf_def)
  have none0: "noneMatched (chainOf (styleOnly y)) r ([]::calls) []" for y r
    by (simp add: s)
  have sb: "styleOf ?cfgB = BOOLEAN" "styleOf ?cfgG = GO_STYLE"
    by (simp_all add: fixture_defs)
  have none3: "noneMatched (chainOf ?cfgB) (JStr []) []
      [(''H1.ifTrue'', [JStr []]), (''H2.ifTrue'', [JStr []]), (''H3.ifTrue'', [JStr []])]"
    by (simp add: fixture_defs)
  have chG: "chainOf ?cfgG = [?H1] @ ?H2 # [?H3]"
    by (simp add: fixture_defs)
  have chO: "chainOf ?cfgO = [?H1] @ ?B # []"
    by (simp add: spyConfig_def chainOf_def)
  have pre: "noneMatched [?H1] notFound [] ?w1"
    by (simp add: fixture_defs)
  have p2: "ifTrue ?H2 notFound ?w1 = (Returns True, ?w2)"
    by (simp add: fixture_defs)
  have a2: "snd (doIt ?H2 notFound ?w2) = ?w2 @ [(''H2.doIt'', [notFound])]"
    by (simp add: fixture_defs)
  have pB: "ifTrue ?B notFound ?w1 = (Throws (JStr ''predicate failed''), ?w2)"
    by (simp add: fixture_defs brokenPredicate_def)
  note t = settlement_decides_go_only_error_boolean
  from t [where cfg = "styleOnly GO_STYLE" and v = "JNum 0" and w = "[]"] s
  have a: "createAsyncHandler (styleOnly GO_STYLE) (Fulfilled (JNum 0)) []
     = (Fulfilled (JArr [JNull, JNum 0]), [])" by simp
  from t [where cfg = "styleOnly GO_STYLE" and w = "[]" and e = "JBool False" and ?w1.0 = "[]"]
    s none0
  have b: "createAsyncHandler (styleOnly GO_STYLE) (Rejected (JBool False)) []
     = (Fulfilled (JArr [JBool False, JNull]), [])" by simp
  from t [where cfg = "styleOnly ONLY_ERROR" and v = "JStr []" and w = "[]"] s
  have c: "createAsyncHandler (styleOnly ONLY_ERROR) (Fulfilled (JStr [])) []
     = (Fulfilled (JNum 0), [])" by simp
  from t [where cfg = "styleOnly ONLY_ERROR" and w = "[]" and e = "JNum 0" and ?w1.0 = "[]"]
    s none0
  have d: "createAsyncHandler (styleOnly ONLY_ERROR) (Rejected (JNum 0)) []
     = (Fulfilled (JNum 1), [])" by simp
  from t [where cfg = "styleOnly BOOLEAN" and v = "JBool False" and w = "[]"] s
  have e: "createAsyncHandler (styleOnly BOOLEAN) (Fulfilled (JBool False)) []
     = (Fulfilled (JBool True), [])" by simp
  from t [where cfg = ?cfgB and w = "[]" and e = "JStr []"
      and ?w1.0 = "[(''H1.ifTrue'', [JStr []]), (''H2.ifTrue'', [JStr []]), (''H3.ifTrue'', [JStr []])]"]
    sb none3
  have f: "createAsyncHandler ?cfgB (Rejected (JStr [])) []
     = (Fulfilled (JBool False),
        [(''H1.ifTrue'', [JStr []]), (''H2.ifTrue'', [JStr []]), (''H3.ifTrue'', [JStr []])])"
    by simp
  from t [where cfg = ?cfgG and w = "[]" and e = notFound and pre = "[?H1]" and h = ?H2
      and post = "[?H3]" and ?w1.0 = ?w1 and ?w2.0 = ?w2] sb chG pre p2
  have "createAsyncHandler ?cfgG (Rejected notFound) []
     = (Fulfilled (JArr [notFound, JNull]), snd (doIt ?H2 notFound ?w2))"
    by simp
  with a2 have g: "createAsyncHandler ?cfgG (Rejected notFound) []
     = (Fulfilled (JArr [notFound, JNull]),
        [(''H1.ifTrue'', [notFound]), (''H2.ifTrue'', [notFound]), (''H2.doIt'', [notFound])])"
    by simp
  from t [where cfg = ?cfgO and w = "[]" and e = notFound and pre = "[?H1]" and h = ?B
      and post = "[]" and ?w1.0 = ?w1 and ?w2.0 = ?w2 and x = "JStr ''predicate failed''"] chO pre pB
  have h: "createAsyncHandler ?cfgO (Rejected notFound) []
     = (Rejected (JStr ''predicate failed''), ?w2)"
    by simp
  from a b c d e f g h show ?thesis by simp
qed

section \<open>Claim C6: false-style and true-style\<close>

text \<open>
  Claim C6 says that on failure \<open>false-style\<close> and \<open>true-style\<close> return the fixed
  boolean regardless of handler outcomes. A predicate that throws is not caught: here a
  \<open>true-style\<close> adapter rejects, after the first predicate declined and the second
  threw, and the default handler is not called.
\<close>

theorem true_style_predicate_throw_counterexample:
  "createAsyncHandler
     (spyConfig (Some TRUE_STYLE)
        [onCode ''H1'' 401 (Returns ()), brokenPredicate ''H2'' (JStr ''predicate failed'')]
        (Returns JUndefined))
     (Rejected serverError) []
   = (Rejected (JStr ''predicate failed''),
      [(''H1.ifTrue'', [serverError]), (''H2.ifTrue'', [serverError])])"
  by (simp add: createAsyncHandler_def Let_def fixture_defs brokenPredicate_def)

text \<open>
  Claim C6, as the code has it: for \<open>false-style\<close> and \<open>true-style\<close>, success returns
  the value unchanged. On failure, when no predicate of the chain throws: if none
  matches, the default handler is called once with the reason, in the world the
  predicates left, what it returns or throws is dropped, and the fixed boolean is
  returned; if \<open>h\<close> is the first to match, its action runs, the default handler is not
  called, and the fixed boolean is returned whatever the action does. When the
  predicates before \<open>h\<close> return false and the predicate of \<open>h\<close> throws \<open>x\<close>, the
  adapter rejects with \<open>x\<close>.
\<close>

theorem shielding_styles:
  "(styleOf cfg = FALSE_STYLE \<or> styleOf cfg = TRUE_STYLE \<longrightarrow>
      createAsyncHandler cfg (Fulfilled v) w = (Fulfilled v, w))
   \<and> ((styleOf cfg = FALSE_STYLE \<or> styleOf cfg = TRUE_STYLE)
        \<and> noneMatched (chainOf cfg) e w w1 \<longrightarrow>
      createAsyncHandler cfg (Rejected e) w =
        (Fulfilled (JBool (styleOf cfg = TRUE_STYLE)), snd (defaultOf cfg e w1)))
   \<and> ((styleOf cfg = FALSE_STYLE \<or> styleOf cfg = TRUE_STYLE)
        \<and> chainOf cfg = pre @ h # post \<and> noneMatched pre e w w1
        \<and> ifTrue h e w1 = (Returns True, w2) \<longrightarrow>
      createAsyncHandler cfg (Rejected e) w =
        (Fulfilled (JBool (styleOf cfg = TRUE_STYLE)), snd (doIt h e w2)))
   \<and> (chainOf cfg = pre @ h # post \<and> noneMatched pre e w w1
        \<and> ifTrue h e w1 = (Throws x, w2) \<longrightarrow>
      createAsyncHandler cfg (Rejected e) w = (Rejected x, w2))"
proof -
  have ok: "createAsyncHandler cfg (Fulfilled v) w = (Fulfilled v, w)"
    if "styleOf cfg = FALSE_STYLE \<or> styleOf cfg = TRUE_STYLE"
    using that by (auto simp add: createAsyncHandler_Fulfilled style_defs)
  have walked: "createAsyncHandler cfg (Rejected e) w =
        (Fulfilled (JBool (styleOf cfg = TRUE_STYLE)),
         if matched then w' else snd (defaultOf cfg e w'))"
    if "styleOf cfg = FALSE_STYLE \<or> styleOf cfg = TRUE_STYLE"
       "walkChain (chainOf cfg) e w = (Returns matched, w')" for matched w'
    using that
    by (auto simp add: createAsyncHandler_recognised RETURN_STYLES_def spec_failureOutput_def
        style_defs)
  have unmatched: "createAsyncHandler cfg (Rejected e) w =
        (Fulfilled (JBool (styleOf cfg = TRUE_STYLE)), snd (defaultOf cfg e w1))"
    if "styleOf cfg = FALSE_STYLE \<or> styleOf cfg = TRUE_STYLE" "noneMatched (chainOf cfg) e w w1"
    using that walked [of False w1] by (simp add: walkChain_noneMatched)
  have matched: "createAsyncHandler cfg (Rejected e) w =
        (Fulfilled (JBool (styleOf cfg = TRUE_STYLE)), snd (doIt h e w2))"
    if "styleOf cfg = FALSE_STYLE \<or> styleOf cfg = TRUE_STYLE"
       "chainOf cfg = pre @ h # post" "noneMatched pre e w w1" "ifTrue h e w1 = (Returns True, w2)"
    using that walked [of True "snd (doIt h e w2)"] by (simp add: walkChain_matched_after)
  have thrown: "createAsyncHandler cfg (Rejected e) w = (Rejected x, w2)"
    if "chainOf cfg = pre @ h # post" "noneMatched pre e w w1" "ifTrue h e w1 = (Throws x, w2)"
    using that by (simp add: createAsyncHandler_predicate_throws walkChain_throws_after)
  from ok unmatched matched thrown show ?thesis by blast
qed

text \<open>Concrete runs of claim C6, through the theorem.\<close>

theorem shielding_styles_witness:
  "createAsyncHandler (spyConfig (Some FALSE_STYLE) [onCode ''H'' 404 (Returns ())] (Returns JUndefined))
       (Rejected notFound) []
     = (Fulfilled (JBool False), [(''H.ifTrue'', [notFound]), (''H.doIt'', [notFound])])
   \<and> createAsyncHandler (spyConfig (Some FALSE_STYLE) [onCode ''H'' 404 (Returns ())] (Returns JUndefined))
       (Rejected serverError) []
     = (Fulfilled (JBool False), [(''H.ifTrue'', [serverError]), (''defaultHandler'', [serverError])])
   \<and> createAsyncHandler (spyConfig (Some TRUE_STYLE) [] (Throws (JStr ''handler failed'')))
       (Rejected serverError) []
     = (Fulfilled (JBool True), [(''defaultHandler'', [serverError])])
   \<and> createAsyncHandler (styleOnly FALSE_STYLE) (Fulfilled (JNum 0)) [] = (Fulfilled (JNum 0), [])
   \<and> createAsyncHandler
        (spyConfig (Some FALSE_STYLE) [brokenPredicate ''H'' (JStr ''predicate failed'')]
           (Returns JUndefined))
        (Rejected serverError) []
     = (Rejected (JStr ''predicate failed''), [(''H.ifTrue'', [serverError])])"
proof -
  let ?H = "onCode ''H'' 404 (Returns ())"
  let ?B = "brokenPredicate ''H'' (JStr ''predicate failed'')"
  let ?cfg = "spyConfig (Some FALSE_STYLE) [?H] (Returns JUndefined)"
  let ?cfgT = "spyConfig (Some TRUE_STYLE) [] (Throws (JStr ''handler failed''))"
  let ?cfgB = "spyConfig (Some FALSE_STYLE) [?B] (Returns JUndefined)"
  have st: "styleOf ?cfg = FALSE_STYLE" "styleOf ?cfgT = TRUE_STYLE"
    "styleOf (styleOnly FALSE_STYLE) = FALSE_STYLE"
    by (simp_all add: fixture_defs styleOnly_def)
  have neq: "FALSE_STYLE \<noteq> TRUE_STYLE"
    by (simp add: style_defs)
  have ch: "chainOf ?cfg = [] @ ?H # []" "chainOf ?cfgB = [] @ ?B # []"
    by (simp_all add: spyConfig_def chainOf_def)
  have pre0: "noneMatched [] r ([]::calls) []" for r
    by simp
  have pA: "ifTrue ?H notFound [] = (Returns True, [(''H.ifTrue'', [notFound])])"
    by (simp add: fixture_defs)
  have actA: "snd (doIt ?H notFound [(''H.ifTrue'', [notFound])])
      = [(''H.ifTrue'', [notFound]), (''H.doIt'', [notFound])]"
    by (simp add: fixture_defs)
  have noneB: "noneMatched (chainOf ?cfg) serverError [] [(''H.ifTrue'', [serverError])]"
    by (simp add: fixture_defs)
  have noneC: "noneMatched (chainOf ?cfgT) serverError [] []"
    by (simp add: fixture_defs)
  have dB: "snd (defaultOf ?cfg serverError [(''H.ifTrue'', [serverError])])
      = [(''H.ifTrue'', [serverError]), (''defaultHandler'', [serverError])]"
    by (simp add: fixture_defs)
  have dC: "snd (defaultOf ?cfgT serverError []) = [(''defaultHandler'', [serverError])]"
    by (simp add: fixture_defs)
  have pT: "ifTrue ?B serverError [] = (Throws (JStr ''predicate failed''), [(''H.ifTrue'', [serverError])])"
    by (simp add: fixture_defs brokenPredicate_def)
  note t = shielding_styles
  from t [where cfg = ?cfg and e = notFound and w = "[]" and pre = "[]" and h = ?H and post = "[]"
      and ?w1.0 = "[]" and ?w2.0 = "[(''H.ifTrue'', [notFound])]"] st ch pre0 pA neq actA
  have a: "createAsyncHandler ?cfg (Rejected notFound) []
     = (Fulfilled (JBool False), [(''H.ifTrue'', [notFound]), (''H.doIt'', [notFound])])"
    by simp
  from t [where cfg = ?cfg and e = serverError and w = "[]"
      and ?w1.0 = "[(''H.ifTrue'', [serverError])]"] st noneB neq dB
  have b: "createAsyncHandler ?cfg (Rejected serverError) []
     = (Fulfilled (JBool False), [(''H.ifTrue'', [serverError]), (''defaultHandler'', [serverError])])"
    by simp
  from t [where cfg = ?cfgT and e = serverError and w = "[]" and ?w1.0 = "[]"] st noneC dC
  have c: "createAsyncHandler ?cfgT (Rejected serverError) []
     = (Fulfilled (JBool True), [(''defaultHandler'', [serverError])])"
    by simp
  from t [where cfg = "styleOnly FALSE_STYLE" and v = "JNum 0" and w = "[]"] st
  have d: "createAsyncHandler (styleOnly FALSE_STYLE) (Fulfilled (JNum 0)) [] = (Fulfilled (JNum 0), [])"
    by simp
  from t [where cfg = ?cfgB and e = serverError and w = "[]" and pre = "[]" and h = ?B
      and post = "[]" and ?w1.0 = "[]" and ?w2.0 = "[(''H.ifTrue'', [serverError])]"
      and x = "JStr ''predicate failed''"] ch pre0 pT
  have e: "createAsyncHandler ?cfgB (Rejected serverError) []
     = (Rejected (JStr ''predicate failed''), [(''H.ifTrue'', [serverError])])"
    by simp
  from a b c d e show ?thesis by blast
qed

section \<open>Claim C7: an unrecognised style\<close>



section \<open>Claim C8: toResult\<close>

text \<open>
  Claim C8 says that \<open>toResult\<close> gives \<open>{success: false, data: null, error: reason}\<close>
  for every failure reason. The code tests the reason for truthiness: rejected with \<open>0\<close>
  or \<open>undefined\<close>, it gives the very object it gives for a success with \<open>null\<close>.
\<close>

theorem toResult_reports_success_for_falsy_reason:
  "toResult spyConsole (Rejected (JNum 0)) None []
     = (Fulfilled (JObj [(''success'', JBool True), (''data'', JNull), (''error'', JNull)]), [])
   \<and> toResult spyConsole (Rejected JUndefined) None []
     = (Fulfilled (JObj [(''success'', JBool True), (''data'', JNull), (''error'', JNull)]), [])
   \<and> toResult spyConsole (Fulfilled JNull) None []
     = (Fulfilled (JObj [(''success'', JBool True), (''data'', JNull), (''error'', JNull)]), [])"
  by (simp add: toResult_Rejected toResult_Fulfilled)

section \<open>Claim C9: the arguments of the error log\<close>

text \<open>
  Claim C9 says that the action of an object entry receives its argument list with the
  failure reason appended. It receives the list as it is: here the call recorded has the
  two arguments of the entry, and no third.
\<close>

theorem reason_not_appended_counterexample:
  "snd (valueOf spyConsole (Rejected serverError)
          (Some (LogConfigObj \<lparr>error = Some savingAction, success = None\<rparr>)) [])
     = [(''fn'', [JStr ''saving'', JNum 1])]
   \<and> snd (valueOf spyConsole (Rejected serverError)
          (Some (LogConfigObj \<lparr>error = Some savingAction, success = None\<rparr>)) [])
     \<noteq> [(''fn'', [JStr ''saving'', JNum 1, serverError])]"
  by (simp add: valueOf_Rejected savingAction_def log_fixture_defs)

text \<open>
  Claim C9, as the code has it: for an object entry the logging helper calls \<open>fn\<close> with
  exactly \<open>params\<close> (with no argument when \<open>params\<close> is missing), and the failure
  reason is not passed; for a non-empty message string (as the error entry, or as the
  whole config) and a truthy reason, it calls \<open>console.error\<close> with the message and the
  reason. When the operation fails with a truthy reason, the effect of each derivative on
  the world is that of this call of the helper.
\<close>

theorem error_log_arguments:
  "handleLog console (Some (LogConfigObj \<lparr>error = Some (LogObject f ps), success = s\<rparr>)) LogError e w
     = f (case ps of None \<Rightarrow> [] | Some xs \<Rightarrow> xs) w
   \<and> (msg \<noteq> [] \<and> truthy e \<longrightarrow>
      handleLog console (Some (LogConfigObj \<lparr>error = Some (LogString msg), success = s\<rparr>)) LogError e w
        = console_error console [JStr msg, e] w)
   \<and> (msg \<noteq> [] \<and> truthy e \<longrightarrow>
      handleLog console (Some (LogConfigString msg)) LogError e w
        = console_error console [JStr msg, e] w)
   \<and> (truthy e \<longrightarrow>
      snd (valueOf console (Rejected e) lc w) = snd (handleLog console lc LogError e w)
      \<and> snd (isSuccess console (Rejected e) lc w) = snd (handleLog console lc LogError e w)
      \<and> snd (toResult console (Rejected e) lc w) = snd (handleLog console lc LogError e w))"
proof -
  have worlds:
    "snd (valueOf console (Rejected e) lc w) = snd (handleLog console lc LogError e w)
      \<and> snd (isSuccess console (Rejected e) lc w) = snd (handleLog console lc LogError e w)
      \<and> snd (toResult console (Rejected e) lc w) = snd (handleLog console lc LogError e w)"
    if "truthy e"
    using that
    by (simp add: valueOf_Rejected isSuccess_Rejected toResult_Rejected
        split: prod.splits completion.splits)
  have strings:
    "handleLog console (Some (LogConfigObj \<lparr>error = Some (LogString msg), success = s\<rparr>)) LogError e w
        = console_error console [JStr msg, e] w"
    "handleLog console (Some (LogConfigString msg)) LogError e w
        = console_error console [JStr msg, e] w"
    if "msg \<noteq> []" "truthy e"
    using that by simp_all
  from worlds strings handleLog_error_object [of console f ps s e w] show ?thesis by blast
qed

text \<open>Concrete runs of claim C9, through the theorem.\<close>

theorem error_log_arguments_witness:
  "snd (toResult spyConsole (Rejected serverError)
          (Some (LogConfigObj \<lparr>error = Some savingAction, success = None\<rparr>)) [])
     = [(''fn'', [JStr ''saving'', JNum 1])]
   \<and> snd (isSuccess spyConsole (Rejected serverError)
          (Some (LogConfigObj \<lparr>error = Some (LogString ''Missed it!''), success = None\<rparr>)) [])
     = [(''console.error'', [JStr ''Missed it!'', serverError])]
   \<and> snd (valueOf spyConsole (Rejected serverError) (Some (LogConfigString ''Custom Error Msg'')) [])
     = [(''console.error'', [JStr ''Custom Error Msg'', serverError])]"
proof -
  let ?lcA = "Some (LogConfigObj \<lparr>error = Some savingAction, success = None\<rparr>)"
  let ?lcM = "Some (LogConfigObj \<lparr>error = Some (LogString ''Missed it!''), success = None\<rparr>)"
  let ?lcS = "Some (LogConfigString ''Custom Error Msg'')"
  note t = error_log_arguments
  have tr: "truthy serverError"
    by (simp add: serverError_def)
  have call: "spy ''fn'' (Returns ()) (case Some [JStr ''saving'', JNum 1] of None \<Rightarrow> [] | Some xs \<Rightarrow> xs) []
      = (Returns (), [(''fn'', [JStr ''saving'', JNum 1])])"
    by (simp add: spy_def)
  have sinkM: "console_error spyConsole [JStr ''Missed it!'', serverError] []
      = (Returns (), [(''console.error'', [JStr ''Missed it!'', serverError])])"
    by (simp add: spyConsole_def spy_def)
  have sinkS: "console_error spyConsole [JStr ''Custom Error Msg'', serverError] []
      = (Returns (), [(''console.error'', [JStr ''Custom Error Msg'', serverError])])"
    by (simp add: spyConsole_def spy_def)
  from t [where console = spyConsole and f = "spy ''fn'' (Returns ())"
      and ps = "Some [JStr ''saving'', JNum 1]" and s = None and e = serverError and w = "[]"
      and lc = ?lcA] tr call
  have a: "snd (toResult spyConsole (Rejected serverError) ?lcA []) = [(''fn'', [JStr ''saving'', JNum 1])]"
    unfolding savingAction_def by simp
  from t [where console = spyConsole and msg = "''Missed it!''" and s = None and e = serverError
      and w = "[]" and lc = ?lcM] tr sinkM
  have b: "snd (isSuccess spyConsole (Rejected serverError) ?lcM [])
      = [(''console.error'', [JStr ''Missed it!'', serverError])]"
    by simp
  from t [where console = spyConsole and msg = "''Custom Error Msg''" and e = serverError
      and w = "[]" and lc = ?lcS] tr sinkS
  have c: "snd (valueOf spyConsole (Rejected serverError) ?lcS [])
      = [(''console.error'', [JStr ''Custom Error Msg'', serverError])]"
    by simp
  from a b c show ?thesis by blast
qed

section \<open>Claim C10: the goStyle pair does not determine the outcome\<close>

text \<open>
  Claim C10: a success with \<open>null\<close> and a failure with reason \<open>null\<close> give the same
  pair \<open>[null, null]\<close>, from the internal handler and from any goStyle adapter, and so
  each of the three derivatives returns the same for both.
\<close>

theorem go_pair_hides_the_outcome:
  "internalHandler (Fulfilled JNull) w = (Fulfilled (JArr [JNull, JNull]), w)
   \<and> internalHandler (Rejected JNull) w = (Fulfilled (JArr [JNull, JNull]), w)
   \<and> valueOf console (Rejected JNull) lc w = valueOf console (Fulfilled JNull) lc w
   \<and> isSuccess console (Rejected JNull) lc w = isSuccess console (Fulfilled JNull) lc w
   \<and> toResult console (Rejected JNull) lc w = toResult console (Fulfilled JNull) lc w
   \<and> (styleOf cfg = GO_STYLE \<and> walkChain (chainOf cfg) JNull w = (Returns m, w1) \<longrightarrow>
        fst (createAsyncHandler cfg (Rejected JNull) w) = Fulfilled (JArr [JNull, JNull])
        \<and> fst (createAsyncHandler cfg (Fulfilled JNull) w) = Fulfilled (JArr [JNull, JNull]))"
proof -
  have adapter: "fst (createAsyncHandler cfg (Rejected JNull) w) = Fulfilled (JArr [JNull, JNull])
        \<and> fst (createAsyncHandler cfg (Fulfilled JNull) w) = Fulfilled (JArr [JNull, JNull])"
    if "styleOf cfg = GO_STYLE" "walkChain (chainOf cfg) JNull w = (Returns m, w1)"
    using that
    by (simp add: createAsyncHandler_recognised createAsyncHandler_Fulfilled RETURN_STYLES_def
        spec_failureOutput_def)
  have derived:
    "valueOf console (Rejected JNull) lc w = valueOf console (Fulfilled JNull) lc w"
    "isSuccess console (Rejected JNull) lc w = isSuccess console (Fulfilled JNull) lc w"
    "toResult console (Rejected JNull) lc w = toResult console (Fulfilled JNull) lc w"
    by (simp_all add: valueOf_Rejected valueOf_Fulfilled isSuccess_Rejected isSuccess_Fulfilled
        toResult_Rejected toResult_Fulfilled)
  from adapter derived show ?thesis
    by (simp add: internalHandler_Fulfilled internalHandler_Rejected)
qed

text \<open>Concrete runs of claim C10, through the theorem.\<close>

theorem go_pair_hides_the_outcome_witness:
  "fst (createAsyncHandler (spyConfig None threeHandlers (Returns JUndefined)) (Rejected JNull) [])
     = Fulfilled (JArr [JNull, JNull])
   \<and> fst (createAsyncHandler (spyConfig None threeHandlers (Returns JUndefined)) (Fulfilled JNull) [])
     = Fulfilled (JArr [JNull, JNull])
   \<and> isSuccess spyConsole (Rejected JNull) None [] = isSuccess spyConsole (Fulfilled JNull) None []"
proof -
  let ?cfg = "spyConfig None threeHandlers (Returns JUndefined)"
  have st: "styleOf ?cfg = GO_STYLE"
    by (simp add: fixture_defs)
  have walk: "walkChain (chainOf ?cfg) JNull [] =
      (Returns False, [(''H1.ifTrue'', [JNull]), (''H2.ifTrue'', [JNull]), (''H3.ifTrue'', [JNull])])"
    by (simp add: fixture_defs)
  from go_pair_hides_the_outcome [where cfg = ?cfg and w = "[]" and m = False
      and console = spyConsole and lc = None] st walk
  show ?thesis by blast
qed

end
